theory Spec2Isabelle
  imports Complex_Main "HOL-Library.Sublist" "HOL-Library.AList" "HOL-Library.Char_ord"
    "HOL-Library.List_Lexorder" "HOL-Library.Multiset"
begin

section \<open>Sessions and the conversation summary (api_server.py, lines 33-62)\<close>

text \<open>
  A Python \<open>str\<close> is modelled as \<open>string\<close>, one \<open>char\<close> per code point (so only code
  points below 256 are covered). A message and a session are the dictionaries the
  server builds; the field \<open>id\<close> of a session is written \<open>id_session\<close>.
\<close>

record message =
  role :: string
  content :: string
  timestamp :: string

record session =
  id_session :: string
  messages :: "message list"
  collection_id :: "string option"
  created_at :: string

text \<open>\<open>sep.join(parts)\<close> of Python.\<close>

fun join :: "string \<Rightarrow> string list \<Rightarrow> string" where
  "join sep [] = []"
| "join sep [x] = x"
| "join sep (x # y # ys) = x @ sep @ join sep (y # ys)"

text \<open>
  The body of the \<open>for msg in last_n\<close> loop of \<open>conversation_summary\<close>, with the list
  \<open>summary_parts\<close> it appends to.
\<close>

fun summary_loop :: "message list \<Rightarrow> string list \<Rightarrow> string list" where
  "summary_loop [] summary_parts = summary_parts"
| "summary_loop (msg # rest) summary_parts =
     (let role_label = (if role msg = ''user'' then ''User'' else ''Assistant'')
      in summary_loop rest (summary_parts @ [role_label @ '': '' @ take 100 (content msg)]))"

text \<open>\<open>messages[-10:]\<close>: the whole list when it has fewer than ten elements.\<close>

definition last_n :: "'a list \<Rightarrow> 'a list" where
  "last_n msgs = drop (length msgs - 10) msgs"

definition conversation_summary :: "session \<Rightarrow> string" where
  "conversation_summary s =
     (let msgs = messages s
      in if msgs = [] then ''No prior conversation.''
         else join '' | '' (summary_loop (last_n msgs) []))"

text \<open>
  The summary as the specification words it: one labelled part for each message of
  the window, the text cut at the character budget, the parts in the order of the log.
\<close>

definition labelled :: "message \<Rightarrow> string" where
  "labelled m = (if role m = ''user'' then ''User'' else ''Assistant'') @ '': '' @ take 100 (content m)"

definition summary_parts_of :: "message list \<Rightarrow> string list" where
  "summary_parts_of msgs = map labelled (drop (length msgs - 10) msgs)"

section \<open>The collection registry and the aggregator (api_server.py, lines 64-137)\<close>

text \<open>
  An exception carries its message. A relevance score is a Python float; only its
  order and the constant \<open>0.0\<close> are used, so it is a \<open>real\<close> (no NaN, no infinity).
\<close>

datatype exn = Exception string

type_synonym candidate = "string \<times> real"

record collection =
  id_collection :: string
  path :: string

text \<open>
  The class \<open>VectorStore\<close> of \<open>core.vector_store\<close> is not part of the sources at hand.
  A loaded store is what the server reads of it: the dictionary \<open>meta\<close> (chunk id to
  chunk metadata, of a type \<open>'m\<close> the server never looks into), and the two searches,
  each of which may raise. Chunk ids are taken in the text form the f-string gives them.
\<close>

record 'm vector_store =
  meta :: "string \<rightharpoonup> 'm"
  search_hybrid :: "string \<Rightarrow> nat \<Rightarrow> nat \<Rightarrow> exn + (string \<times> real) list"
  top_dense_score :: "string \<Rightarrow> exn + real"

text \<open>
  What the aggregator needs of its surroundings: the constant \<open>VS_BASE\<close> of
  \<open>core.config\<close>, the three file-system queries of \<open>os\<close>, and
  \<open>VectorStore(embedder).load(path)\<close>, which yields the loaded store or raises.
\<close>

record 'm storage =
  VS_BASE :: string
  os_path_exists :: "string \<Rightarrow> bool"
  os_path_isdir :: "string \<Rightarrow> bool"
  os_listdir :: "string \<Rightarrow> string list"
  VectorStore_load :: "string \<Rightarrow> exn + 'm vector_store"

text \<open>\<open>os.path.join\<close> of two components on a POSIX system.\<close>

definition os_path_join :: "string \<Rightarrow> string \<Rightarrow> string" where
  "os_path_join a b =
     (if b \<noteq> [] \<and> hd b = CHR ''/'' then b
      else if a = [] \<or> last a = CHR ''/'' then a @ b
      else a @ ''/'' @ b)"

fun collections_loop :: "'m storage \<Rightarrow> string list \<Rightarrow> collection list \<Rightarrow> collection list" where
  "collections_loop st [] collections = collections"
| "collections_loop st (folder_name # rest) collections =
     (let folder_path = os_path_join (VS_BASE st) folder_name
      in if os_path_isdir st folder_path then
           (let meta_path = os_path_join folder_path ''meta.json''
            in if os_path_exists st meta_path
               then collections_loop st rest
                      (collections @ [\<lparr>id_collection = folder_name, path = folder_path\<rparr>])
               else collections_loop st rest collections)
         else collections_loop st rest collections)"

definition get_all_collections :: "'m storage \<Rightarrow> collection list" where
  "get_all_collections st =
     (if \<not> os_path_exists st (VS_BASE st) then []
      else collections_loop st (os_listdir st (VS_BASE st)) [])"

text \<open>
  The three accumulators of \<open>search_all_collections\<close>. \<open>combined_meta\<close> is a Python
  dictionary whose key order is read later (\<open>list(combined_meta.keys())[0]\<close>), so it is
  an association list in insertion order; assigning to a key that is present keeps
  its place, which is what \<open>AList.update\<close> does.
\<close>

record 'm merged =
  all_results :: "candidate list"
  combined_meta :: "(string \<times> 'm) list"
  max_score :: real

text \<open>The inner loop \<open>for chunk_id, score in results\<close>.\<close>

fun add_results :: "string \<Rightarrow> (string \<rightharpoonup> 'm) \<Rightarrow> (string \<times> real) list \<Rightarrow> 'm merged \<Rightarrow> 'm merged" where
  "add_results cid m [] acc = acc"
| "add_results cid m ((chunk_id, score) # results) acc =
     (let global_id = cid @ ''::'' @ chunk_id;
          acc1 = acc\<lparr>all_results := all_results acc @ [(global_id, score)]\<rparr>;
          acc2 = (case m chunk_id of
                    None \<Rightarrow> acc1
                  | Some md \<Rightarrow> acc1\<lparr>combined_meta := AList.update global_id md (combined_meta acc1)\<rparr>)
      in add_results cid m results acc2)"

text \<open>
  The body of the outer loop: everything inside \<open>try\<close>; an exception at any point
  leaves the accumulators as they are at that point and goes on to the next collection.
\<close>

definition search_collection ::
  "'m storage \<Rightarrow> string \<Rightarrow> nat \<Rightarrow> nat \<Rightarrow> collection \<Rightarrow> 'm merged \<Rightarrow> 'm merged" where
  "search_collection st query topk_dense final_k c acc =
     (case VectorStore_load st (path c) of
        Inl e \<Rightarrow> acc
      | Inr vs \<Rightarrow>
          (case search_hybrid vs query topk_dense final_k of
             Inl e \<Rightarrow> acc
           | Inr results \<Rightarrow>
               (let acc1 = add_results (id_collection c) (meta vs) results acc
                in if results \<noteq> [] then
                     (case top_dense_score vs query of
                        Inl e \<Rightarrow> acc1
                      | Inr top_score \<Rightarrow> acc1\<lparr>max_score := max (max_score acc1) top_score\<rparr>)
                   else acc1)))"

fun search_loop ::
  "'m storage \<Rightarrow> string \<Rightarrow> nat \<Rightarrow> nat \<Rightarrow> collection list \<Rightarrow> 'm merged \<Rightarrow> 'm merged" where
  "search_loop st query topk_dense final_k [] acc = acc"
| "search_loop st query topk_dense final_k (c # cs) acc =
     search_loop st query topk_dense final_k cs (search_collection st query topk_dense final_k c acc)"

text \<open>
  \<open>all_results.sort(key=lambda x: x[1], reverse=True)\<close>: Python's sort is stable, also
  with \<open>reverse=True\<close>, so equal scores keep their order; on reals this is the stable
  insertion sort on the negated score.
\<close>

definition sort_by_score_reverse :: "candidate list \<Rightarrow> candidate list" where
  "sort_by_score_reverse xs = sort_key (\<lambda>x. - snd x) xs"

definition merge_all :: "'m storage \<Rightarrow> string \<Rightarrow> nat \<Rightarrow> nat \<Rightarrow> 'm merged" where
  "merge_all st query topk_dense final_k =
     search_loop st query topk_dense final_k (get_all_collections st)
       \<lparr>all_results = [], combined_meta = [], max_score = 0\<rparr>"

definition search_all_collections ::
  "'m storage \<Rightarrow> string \<Rightarrow> nat \<Rightarrow> nat \<Rightarrow> candidate list \<times> (string \<times> 'm) list \<times> real" where
  "search_all_collections st query topk_dense final_k =
     (let all_collections = get_all_collections st
      in if all_collections = [] then ([], [], 0)
         else (let acc = merge_all st query topk_dense final_k;
                   top_results = take final_k (sort_by_score_reverse (all_results acc))
               in (top_results, combined_meta acc, max_score acc)))"

section \<open>What the aggregator computes, collection by collection\<close>

text \<open>
  The candidates one collection contributes, in the order its search returned them:
  the global id, the score, and whether the chunk id has metadata in that collection.
  A collection whose load or search raised contributes none.
\<close>

fun tagged :: "string \<Rightarrow> (string \<rightharpoonup> 'm) \<Rightarrow> string \<times> real \<Rightarrow> string \<times> real \<times> bool" where
  "tagged cid m (chunk_id, score) = (cid @ ''::'' @ chunk_id, score, m chunk_id \<noteq> None)"

definition found_in ::
  "'m storage \<Rightarrow> string \<Rightarrow> nat \<Rightarrow> nat \<Rightarrow> collection \<Rightarrow> (string \<times> real \<times> bool) list" where
  "found_in st query topk_dense final_k c =
     (case VectorStore_load st (path c) of
        Inl e \<Rightarrow> []
      | Inr vs \<Rightarrow>
          (case search_hybrid vs query topk_dense final_k of
             Inl e \<Rightarrow> []
           | Inr results \<Rightarrow> map (tagged (id_collection c) (meta vs)) results))"

definition found_all :: "'m storage \<Rightarrow> string \<Rightarrow> nat \<Rightarrow> nat \<Rightarrow> (string \<times> real \<times> bool) list" where
  "found_all st query topk_dense final_k =
     concat (map (found_in st query topk_dense final_k) (get_all_collections st))"

text \<open>The concatenation of all candidates, before it is sorted and cut to \<open>final_k\<close>.\<close>

definition merged_candidates :: "'m storage \<Rightarrow> string \<Rightarrow> nat \<Rightarrow> nat \<Rightarrow> candidate list" where
  "merged_candidates st query topk_dense final_k =
     map (\<lambda>t. (fst t, fst (snd t))) (found_all st query topk_dense final_k)"

text \<open>The global ids of the candidates whose chunk id has metadata.\<close>

definition with_metadata :: "(string \<times> real \<times> bool) list \<Rightarrow> string set" where
  "with_metadata ts = set (map fst (filter (\<lambda>t. snd (snd t)) ts))"

text \<open>
  The top score a collection adds to the confidence signal: none when its load, its
  search or its top-score query raised, and none when its search returned no result.
\<close>

definition observed_top_score ::
  "'m storage \<Rightarrow> string \<Rightarrow> nat \<Rightarrow> nat \<Rightarrow> collection \<Rightarrow> real option" where
  "observed_top_score st query topk_dense final_k c =
     (case VectorStore_load st (path c) of
        Inl e \<Rightarrow> None
      | Inr vs \<Rightarrow>
          (case search_hybrid vs query topk_dense final_k of
             Inl e \<Rightarrow> None
           | Inr results \<Rightarrow>
               if results \<noteq> [] then
                 (case top_dense_score vs query of Inl e \<Rightarrow> None | Inr top_score \<Rightarrow> Some top_score)
               else None))"

definition observed_top_scores :: "'m storage \<Rightarrow> string \<Rightarrow> nat \<Rightarrow> nat \<Rightarrow> real list" where
  "observed_top_scores st query topk_dense final_k =
     List.map_filter (observed_top_score st query topk_dense final_k) (get_all_collections st)"

text \<open>
  The order the specification asks of the merged list: score descending, equal scores
  by ascending global id (strings compared code point by code point, as Python does).
\<close>

definition ranked_with_id_tiebreak :: "candidate list \<Rightarrow> bool" where
  "ranked_with_id_tiebreak xs =
     sorted_wrt (\<lambda>a b. snd b < snd a \<or> (snd a = snd b \<and> fst a \<le> fst b)) xs"

section \<open>The query endpoint (api_server.py, lines 229-344)\<close>

subsection \<open>Strings\<close>

text \<open>
  \<open>str.strip()\<close> removes the leading and trailing characters for which \<open>str.isspace\<close>
  holds; below code point 256 these are the ones listed here.
\<close>

definition isspace :: "char \<Rightarrow> bool" where
  "isspace c = (of_char c \<in> {9, 10, 11, 12, 13, 28, 29, 30, 31, 32, 133, 160 :: nat})"

definition strip :: "string \<Rightarrow> string" where
  "strip s = rev (dropWhile isspace (rev (dropWhile isspace s)))"

text \<open>
  The test of line 316 on the stripped answer of a grounded attempt: the marker is a
  substring of it (\<open>in\<close> of Python, matching case), or it has fewer than four
  characters.
\<close>

definition unusable :: "string \<Rightarrow> bool" where
  "unusable final_answer =
     (sublist ''Not found in the document'' final_answer \<or> length final_answer < 4)"

text \<open>\<open>raw_answer.startswith("__LLM_ERROR__")\<close>.\<close>

definition is_llm_error :: "string \<Rightarrow> bool" where
  "is_llm_error raw_answer = prefix ''__LLM_ERROR__'' raw_answer"

subsection \<open>The services a query calls\<close>

text \<open>The object a successful query hands to \<open>jsonify\<close>.\<close>

record 's reply =
  answer :: string
  sources :: "'s list"
  used_documents :: bool
  reply_timestamp :: string

text \<open>
  The functions of \<open>core.retrieval\<close> and \<open>core.llm\<close> and the constants of
  \<open>core.config\<close> are not part of the sources at hand; a query takes them as given.
  Each function yields its result or raises. \<open>llm_generate n prompt\<close> is the text of
  the call of \<open>llm.generate(prompt)\<close> that follows \<open>n\<close> earlier calls, since the
  generator need not answer the same prompt twice alike. \<open>uuid4\<close> is the identifier
  \<open>str(uuid.uuid4())\<close> yields, and \<open>now n\<close> the text of \<open>datetime.now().isoformat()\<close> at
  its four places: \<open>0\<close> creating a session, \<open>1\<close> the user message, \<open>2\<close> the assistant
  message, \<open>3\<close> the response. The type \<open>'s\<close> is that of an entry of \<open>source_meta\<close>.
  \<open>jsonify\<close> of Flask serialises the object of an answer or raises, as it does on a
  value that JSON cannot hold; the text it produces is not modelled. On the error
  objects, which hold one string, it does not raise.
\<close>

record ('m, 's) services =
  is_generic_query :: "string \<Rightarrow> exn + bool"
  make_context :: "candidate list \<Rightarrow> (string \<times> 'm) list \<Rightarrow> exn + string \<times> int list \<times> 's list"
  build_prompt :: "string \<Rightarrow> string \<Rightarrow> string \<Rightarrow> bool \<Rightarrow> exn + string"
  llm_generate :: "nat \<Rightarrow> string \<Rightarrow> exn + string"
  add_inline_citations :: "string \<Rightarrow> int list \<Rightarrow> exn + string"
  minimal_extractive_fallback :: "candidate list \<Rightarrow> (string \<times> 'm) list \<Rightarrow> exn + string"
  LOW_CONFIDENCE_THRESH :: real
  TOPK_DENSE :: nat
  TOPK_FINAL :: nat
  uuid4 :: string
  now :: "nat \<Rightarrow> string"
  jsonify :: "'s reply \<Rightarrow> exn + unit"

text \<open>
  The calls a query makes to the classifier, the aggregator, the functions of
  \<open>core.retrieval\<close> and the generator are kept in order, in a trail, so that what was
  attempted can be read off afterwards, also when an exception ends the query.
\<close>

datatype call =
    Call_is_generic_query string
  | Call_search_all_collections string
  | Call_make_context
  | Call_build_prompt bool
  | Call_llm_generate string
  | Call_minimal_extractive_fallback string
  | Call_add_inline_citations string "int list"

fun is_generation :: "call \<Rightarrow> bool" where
  "is_generation (Call_llm_generate p) = True"
| "is_generation c = False"

fun is_retrieval :: "call \<Rightarrow> bool" where
  "is_retrieval (Call_search_all_collections q) = True"
| "is_retrieval c = False"

fun is_citation :: "call \<Rightarrow> bool" where
  "is_citation (Call_add_inline_citations a ps) = True"
| "is_citation c = False"

text \<open>
  A step of the body of \<open>try\<close>: it reads and extends the trail and yields a value or an
  exception; after an exception the rest of the body is skipped.
\<close>

type_synonym 'a step = "call list \<Rightarrow> (exn + 'a) \<times> call list"

definition returns :: "'a \<Rightarrow> 'a step" where
  "returns x = (\<lambda>trail. (Inr x, trail))"

definition raises :: "exn \<Rightarrow> 'a step" where
  "raises e = (\<lambda>trail. (Inl e, trail))"

definition calling :: "call \<Rightarrow> exn + 'a \<Rightarrow> 'a step" where
  "calling c r = (\<lambda>trail. (r, trail @ [c]))"

definition then_do :: "'a step \<Rightarrow> ('a \<Rightarrow> 'b step) \<Rightarrow> 'b step" where
  "then_do m f =
     (\<lambda>trail. case m trail of
                (Inl e, trail') \<Rightarrow> (Inl e, trail')
              | (Inr x, trail') \<Rightarrow> f x trail')"

definition generate :: "('m, 's) services \<Rightarrow> string \<Rightarrow> string step" where
  "generate sv prompt =
     (\<lambda>trail. (llm_generate sv (length (filter is_generation trail)) prompt,
             trail @ [Call_llm_generate prompt]))"

subsection \<open>Sessions\<close>

definition new_session :: "('m, 's) services \<Rightarrow> session" where
  "new_session sv =
     \<lparr>id_session = uuid4 sv, messages = [], collection_id = None, created_at = now sv 0\<rparr>"

text \<open>
  \<open>get_or_create_session\<close> on the dictionary \<open>sessions\<close>: the id and the session it
  returns, and the dictionary afterwards. An absent id is \<open>None\<close>.
\<close>

fun get_or_create_session ::
  "('m, 's) services \<Rightarrow> (string \<rightharpoonup> session) \<Rightarrow> string option \<Rightarrow>
     string \<times> session \<times> (string \<rightharpoonup> session)" where
  "get_or_create_session sv sessions None =
     (uuid4 sv, new_session sv, sessions(uuid4 sv \<mapsto> new_session sv))"
| "get_or_create_session sv sessions (Some session_id) =
     (if session_id \<noteq> [] then
        (case sessions session_id of
           Some s \<Rightarrow> (session_id, s, sessions)
         | None \<Rightarrow> (uuid4 sv, new_session sv, sessions(uuid4 sv \<mapsto> new_session sv)))
      else (uuid4 sv, new_session sv, sessions(uuid4 sv \<mapsto> new_session sv)))"

subsection \<open>The body of \<open>try\<close>\<close>

text \<open>
  The local variables after the retrieval part (lines 262 to 295); \<open>combined\<close> is
  \<open>combined_meta\<close>.
\<close>

record ('m, 's) retrieved =
  context_block :: string
  pages :: "int list"
  source_meta :: "'s list"
  combined :: "(string \<times> 'm) list"
  use_general :: bool

definition retrieve ::
  "('m, 's) services \<Rightarrow> 'm storage \<Rightarrow> string \<Rightarrow> bool \<Rightarrow> ('m, 's) retrieved step" where
  "retrieve sv st user_query generic =
     (if \<not> generic then
        then_do
          (calling (Call_search_all_collections user_query)
             (Inr (search_all_collections st user_query (TOPK_DENSE sv) (TOPK_FINAL sv))))
          (\<lambda>(fused, combined_meta, max_score).
             if fused \<noteq> [] \<and> combined_meta \<noteq> [] then
               then_do (calling Call_make_context (make_context sv fused combined_meta))
                 (\<lambda>(cb, pgs, srcs).
                    returns \<lparr>context_block = cb, pages = pgs, source_meta = srcs,
                      combined = combined_meta,
                      use_general = (max_score < LOW_CONFIDENCE_THRESH sv \<or> length srcs = 0)\<rparr>)
             else
               returns \<lparr>context_block = [], pages = [], source_meta = [],
                 combined = combined_meta, use_general = True\<rparr>)
      else
        returns \<lparr>context_block = [], pages = [], source_meta = [], combined = [],
          use_general = generic\<rparr>)"

text \<open>
  Lines 306 to 311, the answer when the generator returned the error sentinel. The
  result is \<open>final_answer\<close> and \<open>pages\<close>. \<open>list(combined_meta.keys())[0]\<close> raises on an
  empty dictionary.
\<close>

definition llm_error_answer ::
  "('m, 's) services \<Rightarrow> ('m, 's) retrieved \<Rightarrow> (string \<times> int list) step" where
  "llm_error_answer sv r =
     (if \<not> use_general r \<and> source_meta r \<noteq> [] then
        (case combined r of
           [] \<Rightarrow> raises (Exception ''list index out of range'')
         | (first_key, v) # rest \<Rightarrow>
             then_do
               (calling (Call_minimal_extractive_fallback first_key)
                  (minimal_extractive_fallback sv [(first_key, 0)] (combined r)))
               (\<lambda>final_answer. returns (final_answer, pages r)))
      else returns (''Sorry, I couldn't generate an answer right now.'', pages r))"

text \<open>Lines 313 to 320, the answer otherwise, with the retry.\<close>

definition answer_or_retry ::
  "('m, 's) services \<Rightarrow> string \<Rightarrow> string \<Rightarrow> ('m, 's) retrieved \<Rightarrow> string \<Rightarrow>
     (string \<times> int list) step" where
  "answer_or_retry sv user_query conv_summary r raw_answer =
     (let final_answer = strip raw_answer
      in if \<not> use_general r \<and> unusable final_answer then
           then_do
             (calling (Call_build_prompt True)
                (build_prompt sv user_query conv_summary (context_block r) True))
             (\<lambda>prompt2.
           then_do (generate sv prompt2)
             (\<lambda>alt.
                if \<not> is_llm_error alt then returns (strip alt, [])
                else returns (final_answer, pages r)))
         else returns (final_answer, pages r))"

text \<open>Lines 298 to 320: the prompt, the generation, and one of the two above.\<close>

definition generate_answer ::
  "('m, 's) services \<Rightarrow> string \<Rightarrow> string \<Rightarrow> ('m, 's) retrieved \<Rightarrow> (string \<times> int list) step" where
  "generate_answer sv user_query conv_summary r =
     then_do
       (calling (Call_build_prompt (use_general r))
          (build_prompt sv user_query conv_summary (context_block r) (use_general r)))
       (\<lambda>prompt.
     then_do (generate sv prompt)
       (\<lambda>raw_answer.
          if is_llm_error raw_answer then llm_error_answer sv r
          else answer_or_retry sv user_query conv_summary r raw_answer))"

text \<open>Lines 322 to 324.\<close>

definition annotate ::
  "('m, 's) services \<Rightarrow> ('m, 's) retrieved \<Rightarrow> string \<times> int list \<Rightarrow> string step" where
  "annotate sv r ap =
     (case ap of (final_answer, pgs) \<Rightarrow>
        if \<not> use_general r \<and> pgs \<noteq> [] then
          calling (Call_add_inline_citations final_answer pgs)
            (add_inline_citations sv final_answer pgs)
        else returns final_answer)"

definition answer_query ::
  "('m, 's) services \<Rightarrow> 'm storage \<Rightarrow> session \<Rightarrow> string \<Rightarrow>
     (string \<times> ('m, 's) retrieved) step" where
  "answer_query sv st session user_query =
     (let conv_summary = conversation_summary session
      in then_do
           (calling (Call_is_generic_query user_query) (is_generic_query sv user_query))
           (\<lambda>generic.
         then_do (retrieve sv st user_query generic)
           (\<lambda>r.
         then_do (generate_answer sv user_query conv_summary r)
           (\<lambda>ap.
         then_do (annotate sv r ap)
           (\<lambda>final_answer. returns (final_answer, r))))))"

subsection \<open>The endpoint\<close>

text \<open>
  The JSON body of a request (a key that is absent is \<open>None\<close>) and the response: the
  object of an answer, or an error message with its status code.
\<close>

record request =
  req_session_id :: "string option"
  req_query :: "string option"

datatype 's response = Ok "'s reply" | Error string nat

text \<open>\<open>data.get('query', '').strip()\<close>.\<close>

definition user_query_of :: "request \<Rightarrow> string" where
  "user_query_of req = strip (case req_query req of None \<Rightarrow> [] | Some q \<Rightarrow> q)"

text \<open>
  \<open>query\<close>, from the dictionary of sessions and the trail before the request to the
  response, the dictionary and the trail after it. The variable \<open>session\<close> of the source
  is the very object stored in \<open>sessions\<close>, so each append to its messages is written
  back under its id. \<open>return jsonify(...)\<close> is inside \<open>try\<close>, after the assistant message
  is appended.
\<close>

definition query ::
  "('m, 's) services \<Rightarrow> 'm storage \<Rightarrow> (string \<rightharpoonup> session) \<Rightarrow> request \<Rightarrow> call list \<Rightarrow>
     's response \<times> (string \<rightharpoonup> session) \<times> call list" where
  "query sv st sessions req trail =
     (let session_id = req_session_id req;
          user_query = user_query_of req
      in if session_id = None \<or> session_id = Some [] then
           (Error ''session_id required'' 400, sessions, trail)
         else if user_query = [] then
           (Error ''query cannot be empty'' 400, sessions, trail)
         else
           (case get_or_create_session sv sessions session_id of
              (sid, session, sessions1) \<Rightarrow>
                (let session1 = session\<lparr>messages := messages session @
                       [\<lparr>role = ''user'', content = user_query, timestamp = now sv 1\<rparr>]\<rparr>;
                     sessions2 = sessions1(sid \<mapsto> session1)
                 in case answer_query sv st session1 user_query trail of
                      (Inl (Exception msg), trail') \<Rightarrow> (Error msg 500, sessions2, trail')
                    | (Inr (final_answer, r), trail') \<Rightarrow>
                        (let session2 = session1\<lparr>messages := messages session1 @
                               [\<lparr>role = ''assistant'', content = final_answer,
                                 timestamp = now sv 2\<rparr>]\<rparr>;
                             body = \<lparr>answer = final_answer,
                               sources = (if \<not> use_general r then source_meta r else []),
                               used_documents = (\<not> use_general r),
                               reply_timestamp = now sv 3\<rparr>
                         in case jsonify sv body of
                              Inl (Exception msg) \<Rightarrow>
                                (Error msg 500, sessions2(sid \<mapsto> session2), trail')
                            | Inr u \<Rightarrow> (Ok body, sessions2(sid \<mapsto> session2), trail')))))"

subsection \<open>The confidence gate of the specification\<close>

datatype mode = Generic | Grounded

text \<open>
  The decision as the specification words it, over the classification of the query,
  the confidence signal and the candidate count, for a given threshold.
\<close>

definition ConfidenceGate :: "real \<Rightarrow> bool \<Rightarrow> real \<Rightarrow> nat \<Rightarrow> mode" where
  "ConfidenceGate threshold queryIsGeneric confidenceSignal candidateCount =
     (if queryIsGeneric then Generic
      else if confidenceSignal < threshold \<or> candidateCount = 0 then Generic
      else Grounded)"

text \<open>
  The id under which a valid request that names the id \<open>i\<close> finds its session
  afterwards, and the messages that session held before the request.
\<close>

definition stored_under :: "('m, 's) services \<Rightarrow> (string \<rightharpoonup> session) \<Rightarrow> string \<Rightarrow> string" where
  "stored_under sv sessions i = (case sessions i of None \<Rightarrow> uuid4 sv | Some s \<Rightarrow> i)"

definition old_messages :: "(string \<rightharpoonup> session) \<Rightarrow> string \<Rightarrow> message list" where
  "old_messages sessions i = (case sessions i of None \<Rightarrow> [] | Some s \<Rightarrow> messages s)"

definition assistant_message :: "('m, 's) services \<Rightarrow> string \<Rightarrow> message" where
  "assistant_message sv final_answer =
     \<lparr>role = ''assistant'', content = final_answer, timestamp = now sv 2\<rparr>"

definition user_message :: "('m, 's) services \<Rightarrow> request \<Rightarrow> message" where
  "user_message sv req = \<lparr>role = ''user'', content = user_query_of req, timestamp = now sv 1\<rparr>"

section \<open>Example collections\<close>

text \<open>
  Chunk metadata as the specification's data model gives it: source document, page
  number and chunk text.
\<close>

record chunk =
  doc :: string
  page :: int
  text_of :: string

text \<open>One collection whose search returns two chunks of equal score.\<close>

definition tie_store :: "chunk vector_store" where
  "tie_store = \<lparr>meta = [''b'' \<mapsto> \<lparr>doc = ''t.pdf'', page = 1, text_of = ''First.''\<rparr>,
                         ''a'' \<mapsto> \<lparr>doc = ''t.pdf'', page = 2, text_of = ''Second.''\<rparr>],
     search_hybrid = (\<lambda>q kd fk. Inr [(''b'', 1/2), (''a'', 1/2)]),
     top_dense_score = (\<lambda>q. Inr (1/2))\<rparr>"

definition tie_storage :: "chunk storage" where
  "tie_storage = \<lparr>VS_BASE = ''vs'', os_path_exists = (\<lambda>p. True), os_path_isdir = (\<lambda>p. True),
     os_listdir = (\<lambda>p. [''c'']), VectorStore_load = (\<lambda>p. Inr tie_store)\<rparr>"

text \<open>
  The same collection in a directory that also holds a plain file, which the registry
  leaves out.
\<close>

definition tie_storage_relisted :: "chunk storage" where
  "tie_storage_relisted =
     tie_storage\<lparr>os_listdir := (\<lambda>p. [''c'', ''notes.txt'']),
                  os_path_isdir := (\<lambda>p. p = ''vs/c'')\<rparr>"

text \<open>
  Two collections of one chunk each; the collection listed second holds the better
  match.
\<close>

definition store_a :: "chunk vector_store" where
  "store_a = \<lparr>meta = [''0'' \<mapsto> \<lparr>doc = ''a.pdf'', page = 7, text_of = ''Shipping takes 5 days.''\<rparr>],
     search_hybrid = (\<lambda>q kd fk. Inr [(''0'', 3/10)]),
     top_dense_score = (\<lambda>q. Inr (3/10))\<rparr>"

definition store_b :: "chunk vector_store" where
  "store_b = \<lparr>meta = [''0'' \<mapsto> \<lparr>doc = ''b.pdf'', page = 2,
                                text_of = ''Refunds are processed within 14 days.''\<rparr>],
     search_hybrid = (\<lambda>q kd fk. Inr [(''0'', 9/10)]),
     top_dense_score = (\<lambda>q. Inr (9/10))\<rparr>"

definition two_storage :: "chunk storage" where
  "two_storage = \<lparr>VS_BASE = ''vs'', os_path_exists = (\<lambda>p. True), os_path_isdir = (\<lambda>p. True),
     os_listdir = (\<lambda>p. [''a'', ''b'']),
     VectorStore_load = (\<lambda>p. if p = ''vs/a'' then Inr store_a
                              else if p = ''vs/b'' then Inr store_b
                              else Inl (Exception ''missing index''))\<rparr>"

text \<open>
  One collection whose search returns a chunk id for which it holds no metadata.
\<close>

definition bare_store :: "chunk vector_store" where
  "bare_store = \<lparr>meta = Map.empty,
     search_hybrid = (\<lambda>q kd fk. Inr [(''0'', 9/10)]),
     top_dense_score = (\<lambda>q. Inr (9/10))\<rparr>"

definition bare_storage :: "chunk storage" where
  "bare_storage = \<lparr>VS_BASE = ''vs'', os_path_exists = (\<lambda>p. True), os_path_isdir = (\<lambda>p. True),
     os_listdir = (\<lambda>p. [''m'']), VectorStore_load = (\<lambda>p. Inr bare_store)\<rparr>"

text \<open>One collection whose best match has a negative score.\<close>

definition negative_store :: "chunk vector_store" where
  "negative_store = \<lparr>meta = [''0'' \<mapsto> \<lparr>doc = ''n.pdf'', page = 1, text_of = ''Unrelated text.''\<rparr>],
     search_hybrid = (\<lambda>q kd fk. Inr [(''0'', - (1/4))]),
     top_dense_score = (\<lambda>q. Inr (- (1/4)))\<rparr>"

definition negative_storage :: "chunk storage" where
  "negative_storage = \<lparr>VS_BASE = ''vs'', os_path_exists = (\<lambda>p. True), os_path_isdir = (\<lambda>p. True),
     os_listdir = (\<lambda>p. [''n'']), VectorStore_load = (\<lambda>p. Inr negative_store)\<rparr>"

text \<open>Two collections that both fail to load, and a storage with no collection at all.\<close>

definition broken_storage :: "chunk storage" where
  "broken_storage = \<lparr>VS_BASE = ''vs'', os_path_exists = (\<lambda>p. True), os_path_isdir = (\<lambda>p. True),
     os_listdir = (\<lambda>p. [''a'', ''b'']),
     VectorStore_load = (\<lambda>p. Inl (Exception ''corrupt index''))\<rparr>"

definition empty_storage :: "chunk storage" where
  "empty_storage = \<lparr>VS_BASE = ''vs'', os_path_exists = (\<lambda>p. False), os_path_isdir = (\<lambda>p. False),
     os_listdir = (\<lambda>p. []), VectorStore_load = (\<lambda>p. Inl (Exception ''no such file''))\<rparr>"

text \<open>A session with two messages.\<close>

definition two_messages :: session where
  "two_messages = \<lparr>id_session = ''s1'',
     messages = [\<lparr>role = ''user'', content = ''hi'', timestamp = ''t1''\<rparr>,
                 \<lparr>role = ''assistant'', content = ''hello'', timestamp = ''t2''\<rparr>],
     collection_id = None, created_at = ''t0''\<rparr>"

text \<open>
  A session with twelve messages, the fifth of them 105 characters long, and the same
  session with an empty log.
\<close>

definition said :: "string \<Rightarrow> string \<Rightarrow> message" where
  "said r c = \<lparr>role = r, content = c, timestamp = ''t''\<rparr>"

definition twelve_messages :: session where
  "twelve_messages = \<lparr>id_session = ''s2'',
     messages =
       [said ''user'' ''q1'', said ''assistant'' ''a1'',
        said ''user'' ''q2'', said ''assistant'' ''a2'',
        said ''user'' (replicate 105 CHR ''x''), said ''assistant'' ''a3'',
        said ''user'' ''q4'', said ''assistant'' ''a4'',
        said ''user'' ''q5'', said ''assistant'' ''a5'',
        said ''user'' ''q6'', said ''assistant'' ''a6''],
     collection_id = None, created_at = ''t0''\<rparr>"

section \<open>Example services\<close>

text \<open>
  Modelled from the spec: \<open>make_context\<close> of \<open>core.retrieval\<close>, which is not in the
  sources at hand. For the ranked candidates that have metadata, in their order, it
  gives the concatenated chunk texts, the page numbers and the metadata.
\<close>

fun chunks_of :: "candidate list \<Rightarrow> (string \<times> chunk) list \<Rightarrow> chunk list" where
  "chunks_of [] m = []"
| "chunks_of ((global_id, score) # rest) m =
     (case map_of m global_id of
        None \<Rightarrow> chunks_of rest m
      | Some c \<Rightarrow> c # chunks_of rest m)"

definition spec_make_context ::
  "candidate list \<Rightarrow> (string \<times> chunk) list \<Rightarrow> string \<times> int list \<times> chunk list" where
  "spec_make_context fused m =
     (join '' '' (map text_of (chunks_of fused m)), map page (chunks_of fused m), chunks_of fused m)"

text \<open>
  Modelled from the spec: \<open>minimal_extractive_fallback\<close> of \<open>core.retrieval\<close>, which is
  not in the sources at hand. The answer is the raw text of the first listed candidate
  that has metadata.
\<close>

definition spec_minimal_extractive_fallback ::
  "candidate list \<Rightarrow> (string \<times> chunk) list \<Rightarrow> string" where
  "spec_minimal_extractive_fallback fused m =
     (case chunks_of fused m of [] \<Rightarrow> [] | c # rest \<Rightarrow> text_of c)"

text \<open>
  Modelled from the spec: \<open>add_inline_citations\<close> of \<open>core.retrieval\<close>, which is not in
  the sources at hand. It inserts a marker for each page; the marker stands for the
  page reference, whose format the specification leaves open.
\<close>

definition spec_add_inline_citations :: "string \<Rightarrow> int list \<Rightarrow> string" where
  "spec_add_inline_citations final_answer pgs = final_answer @ concat (map (\<lambda>p. '' [*]'') pgs)"

text \<open>
  Services in which every call succeeds: the greeting \<open>hello\<close> is the one generic
  query, the prompt names its variant, and the generator answers with a sentence.
\<close>

definition demo_services :: "(chunk, chunk) services" where
  "demo_services =
     \<lparr>is_generic_query = (\<lambda>q. Inr (q = ''hello'')),
      make_context = (\<lambda>fused m. Inr (spec_make_context fused m)),
      build_prompt = (\<lambda>q summary ctx general.
         Inr ((if general then ''general: '' else ''grounded: '') @ q)),
      llm_generate = (\<lambda>n prompt. Inr ''Refunds take 14 days.''),
      add_inline_citations = (\<lambda>a pgs. Inr (spec_add_inline_citations a pgs)),
      minimal_extractive_fallback = (\<lambda>fused m. Inr (spec_minimal_extractive_fallback fused m)),
      LOW_CONFIDENCE_THRESH = 1/4,
      TOPK_DENSE = 20,
      TOPK_FINAL = 5,
      uuid4 = ''uuid-1'',
      now = (\<lambda>n. ''2024-01-01T00:00:00''),
      jsonify = (\<lambda>body. Inr ())\<rparr>"

text \<open>The generator signals an error on every call.\<close>

definition llm_down_services :: "(chunk, chunk) services" where
  "llm_down_services =
     demo_services\<lparr>llm_generate := (\<lambda>n prompt. Inr ''__LLM_ERROR__: quota exceeded'')\<rparr>"

text \<open>
  The first answer is the sentence of the specification's scenario E, the second a
  general answer.
\<close>

definition scenario_e_services :: "(chunk, chunk) services" where
  "scenario_e_services =
     demo_services\<lparr>llm_generate := (\<lambda>n prompt.
        if n = 0 then Inr ''Not found in document.'' else Inr ''A general answer.'')\<rparr>"


text \<open>Building the prompt raises.\<close>

definition failing_services :: "(chunk, chunk) services" where
  "failing_services =
     demo_services\<lparr>build_prompt := (\<lambda>q summary ctx general. Inl (Exception ''template missing''))\<rparr>"

text \<open>The object of the answer cannot be serialised.\<close>

definition unserialisable_services :: "(chunk, chunk) services" where
  "unserialisable_services =
     demo_services\<lparr>jsonify := (\<lambda>body. Inl (Exception ''Object is not JSON serializable''))\<rparr>"

text \<open>Requests: one that names a session and asks a question, and a greeting.\<close>

definition refund_request :: request where
  "refund_request = \<lparr>req_session_id = Some ''abc'', req_query = Some '' What is the refund policy? ''\<rparr>"

definition hello_request :: request where
  "hello_request = \<lparr>req_session_id = Some ''abc'', req_query = Some ''hello''\<rparr>"

definition refund_query :: string where
  "refund_query = ''What is the refund policy?''"

text \<open>
  What the retrieval part yields for a question on the two collections, and for one
  on the collection with the tie.
\<close>

definition two_retrieved :: "(chunk, chunk) retrieved" where
  "two_retrieved =
     \<lparr>context_block = ''Refunds are processed within 14 days. Shipping takes 5 days.'',
      pages = [2, 7],
      source_meta =
        [\<lparr>doc = ''b.pdf'', page = 2, text_of = ''Refunds are processed within 14 days.''\<rparr>,
         \<lparr>doc = ''a.pdf'', page = 7, text_of = ''Shipping takes 5 days.''\<rparr>],
      combined =
        [(''a::0'', \<lparr>doc = ''a.pdf'', page = 7, text_of = ''Shipping takes 5 days.''\<rparr>),
         (''b::0'', \<lparr>doc = ''b.pdf'', page = 2, text_of = ''Refunds are processed within 14 days.''\<rparr>)],
      use_general = False\<rparr>"

definition tie_retrieved :: "(chunk, chunk) retrieved" where
  "tie_retrieved =
     \<lparr>context_block = ''First. Second.'',
      pages = [1, 2],
      source_meta =
        [\<lparr>doc = ''t.pdf'', page = 1, text_of = ''First.''\<rparr>,
         \<lparr>doc = ''t.pdf'', page = 2, text_of = ''Second.''\<rparr>],
      combined =
        [(''c::b'', \<lparr>doc = ''t.pdf'', page = 1, text_of = ''First.''\<rparr>),
         (''c::a'', \<lparr>doc = ''t.pdf'', page = 2, text_of = ''Second.''\<rparr>)],
      use_general = False\<rparr>"

section \<open>Facts about the conversation summary\<close>

lemma summary_loop_map: "summary_loop ms acc = acc @ map labelled ms"
  by (induction ms arbitrary: acc) (simp_all add: labelled_def)

lemma summary_parts_of_length: "length (summary_parts_of msgs) = min 10 (length msgs)"
  by (simp add: summary_parts_of_def)

lemma summary_parts_of_nth:
  assumes "i < min 10 (length msgs)"
  shows "summary_parts_of msgs ! i = labelled (msgs ! (length msgs - min 10 (length msgs) + i))"
proof -
  have "length msgs - min 10 (length msgs) = length msgs - 10"
    by (simp add: min_def)
  moreover have "i < length (drop (length msgs - 10) msgs)"
    using assms by (simp add: min_def split: if_splits)
  ultimately show ?thesis
    by (simp add: summary_parts_of_def)
qed

lemma join_concat:
  "ps \<noteq> [] \<Longrightarrow> join sep ps = hd ps @ concat (map (\<lambda>p. sep @ p) (tl ps))"
  by (induction sep ps rule: join.induct) simp_all

lemma summary_parts_of_nonempty: "msgs \<noteq> [] \<Longrightarrow> summary_parts_of msgs \<noteq> []"
proof -
  assume "msgs \<noteq> []"
  then have "0 < min 10 (length msgs)" by simp
  then have "0 < length (summary_parts_of msgs)" by (simp only: summary_parts_of_length)
  then show ?thesis by auto
qed

text \<open>
  Claim C8. The summary of an empty log is the text "No prior conversation."; of any
  other log it is the first part followed by every further part with " | " before it,
  where there is one part for each of the last ten messages (all of them when there
  are fewer), in the order of the log, and part \<open>i\<close> is the role label ("User" for
  the role "user", "Assistant" otherwise), ": " and the first 100 characters of that
  message's text.
\<close>

theorem conversation_summary_last_ten:
  "(messages s = [] \<longrightarrow> conversation_summary s = ''No prior conversation.'') \<and>
   (messages s \<noteq> [] \<longrightarrow>
      conversation_summary s =
        hd (summary_parts_of (messages s)) @
        concat (map (\<lambda>p. '' | '' @ p) (tl (summary_parts_of (messages s))))) \<and>
   length (summary_parts_of (messages s)) = min 10 (length (messages s)) \<and>
   (\<forall>i < min 10 (length (messages s)).
      summary_parts_of (messages s) ! i =
        (if role (messages s ! (length (messages s) - min 10 (length (messages s)) + i)) = ''user''
         then ''User'' else ''Assistant'') @ '': '' @
        take 100 (content (messages s ! (length (messages s) - min 10 (length (messages s)) + i))))"
proof -
  have a: "messages s = [] \<longrightarrow> conversation_summary s = ''No prior conversation.''"
    by (simp add: conversation_summary_def)
  have b: "messages s \<noteq> [] \<longrightarrow>
      conversation_summary s =
        hd (summary_parts_of (messages s)) @
        concat (map (\<lambda>p. '' | '' @ p) (tl (summary_parts_of (messages s))))"
  proof
    assume ne: "messages s \<noteq> []"
    then have "conversation_summary s = join '' | '' (summary_parts_of (messages s))"
      by (simp add: conversation_summary_def Let_def last_n_def summary_loop_map
          summary_parts_of_def)
    also have "\<dots> = hd (summary_parts_of (messages s)) @
        concat (map (\<lambda>p. '' | '' @ p) (tl (summary_parts_of (messages s))))"
      using ne by (intro join_concat summary_parts_of_nonempty)
    finally show "conversation_summary s =
        hd (summary_parts_of (messages s)) @
        concat (map (\<lambda>p. '' | '' @ p) (tl (summary_parts_of (messages s))))" .
  qed
  have c: "length (summary_parts_of (messages s)) = min 10 (length (messages s))"
    by (rule summary_parts_of_length)
  have d: "\<forall>i < min 10 (length (messages s)).
      summary_parts_of (messages s) ! i =
        (if role (messages s ! (length (messages s) - min 10 (length (messages s)) + i)) = ''user''
         then ''User'' else ''Assistant'') @ '': '' @
        take 100 (content (messages s ! (length (messages s) - min 10 (length (messages s)) + i)))"
    using summary_parts_of_nth [of _ "messages s"] by (simp add: labelled_def)
  from a b c d show ?thesis by blast
qed

text \<open>
  Twelve messages: the first two are left out, the long one is cut to 100 characters,
  and all ten parts are there.
\<close>

theorem conversation_summary_last_ten_witness:
  "length (messages twelve_messages) = 12 \<and>
   conversation_summary twelve_messages =
     ''User: q2 | Assistant: a2 | User: '' @ replicate 100 CHR ''x'' @
     '' | Assistant: a3 | User: q4 | Assistant: a4 | User: q5 | Assistant: a5'' @
     '' | User: q6 | Assistant: a6'' \<and>
   messages (twelve_messages\<lparr>messages := []\<rparr>) = [] \<and>
   conversation_summary (twelve_messages\<lparr>messages := []\<rparr>) = ''No prior conversation.''"
proof -
  have parts: "summary_parts_of (messages twelve_messages) =
      [''User: q2'', ''Assistant: a2'', ''User: '' @ replicate 100 CHR ''x'', ''Assistant: a3'',
       ''User: q4'', ''Assistant: a4'', ''User: q5'', ''Assistant: a5'',
       ''User: q6'', ''Assistant: a6'']"
    by (simp add: twelve_messages_def summary_parts_of_def labelled_def said_def)
  have ne: "messages twelve_messages \<noteq> []"
    by (simp add: twelve_messages_def)
  have "conversation_summary twelve_messages =
      hd (summary_parts_of (messages twelve_messages)) @
      concat (map (\<lambda>p. '' | '' @ p) (tl (summary_parts_of (messages twelve_messages))))"
    using conversation_summary_last_ten [of twelve_messages] ne by blast
  then have one: "conversation_summary twelve_messages =
     ''User: q2 | Assistant: a2 | User: '' @ replicate 100 CHR ''x'' @
     '' | Assistant: a3 | User: q4 | Assistant: a4 | User: q5 | Assistant: a5'' @
     '' | User: q6 | Assistant: a6''"
    by (simp add: parts)
  have two: "conversation_summary (twelve_messages\<lparr>messages := []\<rparr>) = ''No prior conversation.''"
    using conversation_summary_last_ten [of "twelve_messages\<lparr>messages := []\<rparr>"] by simp
  have len: "length (messages twelve_messages) = 12"
    by (simp add: twelve_messages_def)
  from len one two show ?thesis by simp
qed

section \<open>Facts about the aggregator\<close>

subsection \<open>The loops\<close>

lemma with_metadata_append: "with_metadata (xs @ ys) = with_metadata xs \<union> with_metadata ys"
  by (simp add: with_metadata_def)

lemma with_metadata_Nil: "with_metadata [] = {}"
  by (simp add: with_metadata_def)

lemma with_metadata_Cons:
  "with_metadata (t # ts) = (if snd (snd t) then insert (fst t) (with_metadata ts) else with_metadata ts)"
  by (simp add: with_metadata_def)

lemma add_results_all:
  "all_results (add_results cid m rs acc) =
     all_results acc @ map (\<lambda>t. (fst t, fst (snd t))) (map (tagged cid m) rs)"
  by (induction cid m rs acc rule: add_results.induct) (simp_all add: Let_def split: option.splits)

lemma add_results_max: "max_score (add_results cid m rs acc) = max_score acc"
  by (induction cid m rs acc rule: add_results.induct) (simp_all add: Let_def split: option.splits)

lemma add_results_keys:
  "fst ` set (combined_meta (add_results cid m rs acc)) =
     fst ` set (combined_meta acc) \<union> with_metadata (map (tagged cid m) rs)"
proof (induction cid m rs acc rule: add_results.induct)
  case (1 cid m acc)
  then show ?case by (simp add: with_metadata_Nil)
next
  case (2 cid m chunk_id score results acc)
  show ?case
  proof (cases "m chunk_id")
    case None
    with 2 show ?thesis by (simp add: Let_def with_metadata_Cons)
  next
    case (Some md)
    with 2 show ?thesis by (simp add: Let_def with_metadata_Cons dom_update)
  qed
qed

lemma search_collection_all:
  "all_results (search_collection st q kd fk c acc) =
     all_results acc @ map (\<lambda>t. (fst t, fst (snd t))) (found_in st q kd fk c)"
  by (simp add: search_collection_def found_in_def add_results_all Let_def
      split: sum.splits)

lemma search_collection_keys:
  "fst ` set (combined_meta (search_collection st q kd fk c acc)) =
     fst ` set (combined_meta acc) \<union> with_metadata (found_in st q kd fk c)"
  by (simp add: search_collection_def found_in_def add_results_keys Let_def with_metadata_Nil
      split: sum.splits)

lemma search_collection_max:
  "max_score (search_collection st q kd fk c acc) =
     (case observed_top_score st q kd fk c of
        None \<Rightarrow> max_score acc
      | Some t \<Rightarrow> max (max_score acc) t)"
  by (simp add: search_collection_def observed_top_score_def add_results_max Let_def
      split: sum.splits)

lemma search_loop_all:
  "all_results (search_loop st q kd fk cs acc) =
     all_results acc @ map (\<lambda>t. (fst t, fst (snd t))) (concat (map (found_in st q kd fk) cs))"
  by (induction cs arbitrary: acc) (simp_all add: search_collection_all)

lemma search_loop_keys:
  "fst ` set (combined_meta (search_loop st q kd fk cs acc)) =
     fst ` set (combined_meta acc) \<union> with_metadata (concat (map (found_in st q kd fk) cs))"
  by (induction cs arbitrary: acc)
     (simp_all add: search_collection_keys with_metadata_Nil with_metadata_append Un_assoc)

lemma search_loop_max:
  "max_score (search_loop st q kd fk cs acc) =
     Max (insert (max_score acc) (set (List.map_filter (observed_top_score st q kd fk) cs)))"
proof (induction cs arbitrary: acc)
  case Nil
  then show ?case by simp
next
  case (Cons c cs)
  show ?case
  proof (cases "observed_top_score st q kd fk c")
    case None
    then show ?thesis by (simp add: Cons search_collection_max)
  next
    case (Some t)
    have "Max (insert (max (max_score acc) t) (set (List.map_filter (observed_top_score st q kd fk) cs)))
        = Max (insert (max_score acc) (insert t (set (List.map_filter (observed_top_score st q kd fk) cs))))"
      by (cases "set (List.map_filter (observed_top_score st q kd fk) cs) = {}")
         (simp_all add: max.assoc insert_commute)
    with Some show ?thesis by (simp add: Cons search_collection_max)
  qed
qed

lemma search_loop_same_stores:
  assumes "\<forall>c \<in> set cs. VectorStore_load st (path c) = VectorStore_load st' (path c)"
  shows "search_loop st q kd fk cs acc = search_loop st' q kd fk cs acc"
  using assms
proof (induction cs arbitrary: acc)
  case Nil
  then show ?case by simp
next
  case (Cons c cs)
  then have "search_collection st q kd fk c acc = search_collection st' q kd fk c acc"
    by (simp add: search_collection_def)
  with Cons show ?case by simp
qed

subsection \<open>The result of \<open>search_all_collections\<close>\<close>

lemma sort_by_score_reverse_sorted:
  "sorted_wrt (\<lambda>a b. snd b \<le> snd a) (sort_by_score_reverse xs)"
proof -
  have "sorted (map (\<lambda>x. - snd x) (sort_by_score_reverse xs))"
    unfolding sort_by_score_reverse_def by (rule sorted_sort_key)
  then show ?thesis by (simp add: sorted_map)
qed

lemma sort_by_score_reverse_stable:
  "filter (\<lambda>x. snd x = k) (sort_by_score_reverse xs) = filter (\<lambda>x. snd x = k) xs"
proof -
  have "filter (\<lambda>x. - snd x = - k) (sort_key (\<lambda>x. - snd x) xs) = filter (\<lambda>x. - snd x = - k) xs"
    by (rule sort_key_stable)
  then show ?thesis by (simp add: sort_by_score_reverse_def)
qed

lemma search_all_collections_eq:
  "search_all_collections st q kd fk =
     (take fk (sort_by_score_reverse (all_results (merge_all st q kd fk))),
      combined_meta (merge_all st q kd fk), max_score (merge_all st q kd fk))"
  by (simp add: search_all_collections_def Let_def merge_all_def sort_by_score_reverse_def)

lemma merge_all_results: "all_results (merge_all st q kd fk) = merged_candidates st q kd fk"
  by (simp add: merge_all_def merged_candidates_def found_all_def search_loop_all)

lemma merge_all_keys:
  "fst ` set (combined_meta (merge_all st q kd fk)) = with_metadata (found_all st q kd fk)"
  by (simp add: merge_all_def found_all_def search_loop_keys)

lemma merge_all_max:
  "max_score (merge_all st q kd fk) = Max (insert 0 (set (observed_top_scores st q kd fk)))"
  by (simp add: merge_all_def observed_top_scores_def search_loop_max)

lemma search_all_collections_same_stores:
  assumes "get_all_collections st = get_all_collections st'"
    and "\<forall>c \<in> set (get_all_collections st).
           VectorStore_load st (path c) = VectorStore_load st' (path c)"
  shows "search_all_collections st q kd fk = search_all_collections st' q kd fk"
proof -
  have "merge_all st q kd fk = merge_all st' q kd fk"
    using assms search_loop_same_stores [of "get_all_collections st" st st' q kd fk]
    by (simp add: merge_all_def)
  with assms(1) show ?thesis by (simp add: search_all_collections_def)
qed

lemma search_all_collections_fused:
  "fst (search_all_collections st q kd fk) =
     take fk (sort_by_score_reverse (merged_candidates st q kd fk))"
  by (simp add: search_all_collections_eq merge_all_results)

subsection \<open>The example collections\<close>

lemma tie_load: "VectorStore_load tie_storage p = Inr tie_store"
  by (simp add: tie_storage_def)

lemma tie_collections: "get_all_collections tie_storage = [\<lparr>id_collection = ''c'', path = ''vs/c''\<rparr>]"
  by (simp add: get_all_collections_def tie_storage_def os_path_join_def)

lemma tie_found: "found_all tie_storage q kd fk = [(''c::b'', 1/2, True), (''c::a'', 1/2, True)]"
  by (simp add: found_all_def tie_collections found_in_def tie_load tie_store_def)

lemma tie_fused:
  "fst (search_all_collections tie_storage ''q'' 20 5) = [(''c::b'', 1/2), (''c::a'', 1/2)]"
  by (simp add: search_all_collections_fused merged_candidates_def tie_found
      sort_by_score_reverse_def)

lemma two_load:
  "VectorStore_load two_storage ''vs/a'' = Inr store_a"
  "VectorStore_load two_storage ''vs/b'' = Inr store_b"
  by (simp_all add: two_storage_def)

lemma two_collections:
  "get_all_collections two_storage =
     [\<lparr>id_collection = ''a'', path = ''vs/a''\<rparr>, \<lparr>id_collection = ''b'', path = ''vs/b''\<rparr>]"
  by (simp add: get_all_collections_def two_storage_def os_path_join_def)

lemma two_found:
  "found_all two_storage q kd fk = [(''a::0'', 3/10, True), (''b::0'', 9/10, True)]"
  by (simp add: found_all_def two_collections found_in_def two_load store_a_def store_b_def)

lemma two_observed: "observed_top_scores two_storage q kd fk = [3/10, 9/10]"
  by (simp add: observed_top_scores_def two_collections observed_top_score_def
        two_load store_a_def store_b_def)

lemma two_search:
  "search_all_collections two_storage q kd (Suc 0) =
     ([(''b::0'', 9/10)],
      [(''a::0'', \<lparr>doc = ''a.pdf'', page = 7, text_of = ''Shipping takes 5 days.''\<rparr>),
       (''b::0'', \<lparr>doc = ''b.pdf'', page = 2, text_of = ''Refunds are processed within 14 days.''\<rparr>)],
      9/10)"
  by (simp add: search_all_collections_def two_collections merge_all_def search_collection_def
        sort_by_score_reverse_def Let_def two_load store_a_def store_b_def)

lemma negative_load: "VectorStore_load negative_storage p = Inr negative_store"
  by (simp add: negative_storage_def)

lemma negative_collections:
  "get_all_collections negative_storage = [\<lparr>id_collection = ''n'', path = ''vs/n''\<rparr>]"
  by (simp add: get_all_collections_def negative_storage_def os_path_join_def)

lemma negative_observed: "observed_top_scores negative_storage q kd fk = [- (1/4)]"
  by (simp add: observed_top_scores_def negative_collections observed_top_score_def
        negative_load negative_store_def)

lemma empty_collections: "get_all_collections empty_storage = []"
  by (simp add: get_all_collections_def empty_storage_def)

subsection \<open>The order of the merged list\<close>

text \<open>
  Claim C1, as the code has it. The list the aggregator returns is the first \<open>final_k\<close>
  candidates of the concatenation of all collections' candidates (collections in the
  order they are listed, each collection's candidates in the order its search
  returned them) sorted by score descending; the sort is stable, so candidates of
  equal score keep their order of concatenation. The result depends on the storage
  only through the list of collections and what loading each of them gives, so two
  runs over the same collections with the same stores give the same result.
\<close>

theorem merged_list_sorted_stable:
  "fst (search_all_collections st q kd fk) =
     take fk (sort_by_score_reverse (merged_candidates st q kd fk)) \<and>
   sorted_wrt (\<lambda>a b. snd b \<le> snd a) (fst (search_all_collections st q kd fk)) \<and>
   sorted_wrt (\<lambda>a b. snd b \<le> snd a) (sort_by_score_reverse (merged_candidates st q kd fk)) \<and>
   mset (sort_by_score_reverse (merged_candidates st q kd fk)) = mset (merged_candidates st q kd fk) \<and>
   filter (\<lambda>x. snd x = k) (sort_by_score_reverse (merged_candidates st q kd fk)) =
     filter (\<lambda>x. snd x = k) (merged_candidates st q kd fk) \<and>
   (get_all_collections st = get_all_collections st' \<and>
    (\<forall>c \<in> set (get_all_collections st).
        VectorStore_load st (path c) = VectorStore_load st' (path c)) \<longrightarrow>
      search_all_collections st q kd fk = search_all_collections st' q kd fk)"
proof -
  have b: "sorted_wrt (\<lambda>a b. snd b \<le> snd a) (fst (search_all_collections st q kd fk))"
    unfolding search_all_collections_fused
    by (rule sorted_wrt_take) (rule sort_by_score_reverse_sorted)
  have c: "mset (sort_by_score_reverse (merged_candidates st q kd fk)) =
      mset (merged_candidates st q kd fk)"
    by (simp add: sort_by_score_reverse_def)
  have d: "get_all_collections st = get_all_collections st' \<and>
    (\<forall>c \<in> set (get_all_collections st).
        VectorStore_load st (path c) = VectorStore_load st' (path c)) \<longrightarrow>
      search_all_collections st q kd fk = search_all_collections st' q kd fk"
    using search_all_collections_same_stores [of st st' q kd fk] by blast
  from search_all_collections_fused [of st q kd fk] b
    sort_by_score_reverse_sorted [of "merged_candidates st q kd fk"] c
    sort_by_score_reverse_stable [of k "merged_candidates st q kd fk"] d
  show ?thesis by blast
qed

theorem merged_list_sorted_stable_witness:
  "fst (search_all_collections tie_storage ''q'' 20 5) = [(''c::b'', 1/2), (''c::a'', 1/2)] \<and>
   merged_candidates tie_storage ''q'' 20 5 = [(''c::b'', 1/2), (''c::a'', 1/2)] \<and>
   get_all_collections tie_storage = get_all_collections tie_storage_relisted \<and>
   search_all_collections tie_storage ''q'' 20 5 =
     search_all_collections tie_storage_relisted ''q'' 20 5"
proof -
  have same: "get_all_collections tie_storage = get_all_collections tie_storage_relisted"
    by (simp add: get_all_collections_def tie_storage_relisted_def tie_storage_def
        os_path_join_def)
  have loads: "\<forall>c \<in> set (get_all_collections tie_storage).
      VectorStore_load tie_storage (path c) = VectorStore_load tie_storage_relisted (path c)"
    by (simp add: tie_storage_relisted_def tie_storage_def)
  from merged_list_sorted_stable [of tie_storage "''q''" 20 5 "1/2" tie_storage_relisted]
    same loads
  have "fst (search_all_collections tie_storage ''q'' 20 5) =
      take 5 (sort_by_score_reverse (merged_candidates tie_storage ''q'' 20 5))"
    and "search_all_collections tie_storage ''q'' 20 5 =
      search_all_collections tie_storage_relisted ''q'' 20 5"
    by blast+
  with same show ?thesis
    by (simp add: merged_candidates_def tie_found sort_by_score_reverse_def)
qed

text \<open>
  Two candidates of one collection with the same score come out in the order of the
  search, \<open>c::b\<close> before \<open>c::a\<close>, not by ascending global id.
\<close>

theorem merged_list_tie_counterexample:
  "fst (search_all_collections tie_storage ''q'' 20 5) = [(''c::b'', 1/2), (''c::a'', 1/2)] \<and>
   \<not> ranked_with_id_tiebreak (fst (search_all_collections tie_storage ''q'' 20 5))"
  by (simp add: tie_fused ranked_with_id_tiebreak_def less_char_def less_eq_char_def)

subsection \<open>The metadata mapping\<close>

text \<open>
  Claim C5, as the code has it. The keys of the metadata mapping the aggregator
  returns are exactly the global ids of the candidates of the whole merged list,
  before it is cut to \<open>final_k\<close>, whose chunk id has metadata in its collection. So
  every key is the id of a merged candidate, and every returned candidate is one of
  the merged candidates; but a candidate cut from the returned list keeps its entry.
\<close>

theorem metadata_mapping_keys:
  "fst ` set (fst (snd (search_all_collections st q kd fk))) = with_metadata (found_all st q kd fk) \<and>
   with_metadata (found_all st q kd fk) \<subseteq> fst ` set (merged_candidates st q kd fk) \<and>
   set (fst (search_all_collections st q kd fk)) \<subseteq> set (merged_candidates st q kd fk)"
proof -
  have a: "fst ` set (fst (snd (search_all_collections st q kd fk))) =
      with_metadata (found_all st q kd fk)"
    by (simp add: search_all_collections_eq merge_all_keys)
  have b: "with_metadata (found_all st q kd fk) \<subseteq> fst ` set (merged_candidates st q kd fk)"
    by (auto simp: with_metadata_def merged_candidates_def intro: rev_image_eqI)
  have c: "set (fst (search_all_collections st q kd fk)) \<subseteq> set (merged_candidates st q kd fk)"
    using set_take_subset [of fk "sort_by_score_reverse (merged_candidates st q kd fk)"]
    by (simp add: search_all_collections_fused sort_by_score_reverse_def)
  from a b c show ?thesis by blast
qed

theorem metadata_mapping_keys_witness:
  "fst ` set (fst (snd (search_all_collections two_storage ''q'' 20 (Suc 0)))) = {''a::0'', ''b::0''} \<and>
   with_metadata (found_all two_storage ''q'' 20 (Suc 0)) = {''a::0'', ''b::0''}"
  using metadata_mapping_keys [of two_storage "''q''" 20 "Suc 0"]
  by (simp add: two_found with_metadata_def)

text \<open>
  With two collections of one candidate each and \<open>final_k = 1\<close> the returned list holds
  \<open>b::0\<close> alone, and the mapping has an entry for \<open>a::0\<close> as well.
\<close>

theorem metadata_mapping_counterexample:
  "map fst (fst (search_all_collections two_storage ''q'' 20 (Suc 0))) = [''b::0''] \<and>
   map fst (fst (snd (search_all_collections two_storage ''q'' 20 (Suc 0)))) = [''a::0'', ''b::0''] \<and>
   fst ` set (fst (snd (search_all_collections two_storage ''q'' 20 (Suc 0)))) \<noteq>
   fst ` set (fst (search_all_collections two_storage ''q'' 20 (Suc 0)))"
  by (simp add: two_search)

subsection \<open>The confidence signal\<close>

text \<open>
  Claim C6, as the code has it. The confidence signal is the maximum of \<open>0.0\<close> and the
  top scores of the collections that loaded, returned at least one search result and
  answered the top-score query; it is computed before the merged list is cut, and the
  cut does not enter it. It is \<open>0.0\<close> when there is no collection and when every
  collection fails to load; and it is the maximum of the observed top scores when one
  of them is not negative.
\<close>

theorem confidence_signal_max_observed:
  "snd (snd (search_all_collections st q kd fk)) =
     Max (insert 0 (set (observed_top_scores st q kd fk))) \<and>
   (get_all_collections st = [] \<longrightarrow> snd (snd (search_all_collections st q kd fk)) = 0) \<and>
   ((\<forall>c \<in> set (get_all_collections st). \<exists>e. VectorStore_load st (path c) = Inl e) \<longrightarrow>
      snd (snd (search_all_collections st q kd fk)) = 0) \<and>
   ((\<exists>t \<in> set (observed_top_scores st q kd fk). 0 \<le> t) \<longrightarrow>
      snd (snd (search_all_collections st q kd fk)) = Max (set (observed_top_scores st q kd fk)))"
proof -
  have a: "snd (snd (search_all_collections st q kd fk)) =
     Max (insert 0 (set (observed_top_scores st q kd fk)))"
    by (simp add: search_all_collections_eq merge_all_max)
  have b: "get_all_collections st = [] \<longrightarrow> snd (snd (search_all_collections st q kd fk)) = 0"
    by (simp add: search_all_collections_def)
  have c: "(\<forall>c \<in> set (get_all_collections st). \<exists>e. VectorStore_load st (path c) = Inl e) \<longrightarrow>
      snd (snd (search_all_collections st q kd fk)) = 0"
  proof
    assume fails: "\<forall>c \<in> set (get_all_collections st). \<exists>e. VectorStore_load st (path c) = Inl e"
    have "List.map_filter (observed_top_score st q kd fk) cs = []"
      if "\<forall>c \<in> set cs. \<exists>e. VectorStore_load st (path c) = Inl e" for cs
      using that by (induction cs) (auto simp: observed_top_score_def)
    with fails have "observed_top_scores st q kd fk = []"
      by (simp add: observed_top_scores_def)
    with a show "snd (snd (search_all_collections st q kd fk)) = 0" by simp
  qed
  have d: "(\<exists>t \<in> set (observed_top_scores st q kd fk). 0 \<le> t) \<longrightarrow>
      snd (snd (search_all_collections st q kd fk)) = Max (set (observed_top_scores st q kd fk))"
  proof
    assume "\<exists>t \<in> set (observed_top_scores st q kd fk). 0 \<le> t"
    then obtain t where t: "t \<in> set (observed_top_scores st q kd fk)" and nonneg: "0 \<le> t"
      by blast
    have "t \<le> Max (set (observed_top_scores st q kd fk))"
      using t by simp
    with nonneg have "0 \<le> Max (set (observed_top_scores st q kd fk))"
      by simp
    moreover have "set (observed_top_scores st q kd fk) \<noteq> {}"
      using t by auto
    ultimately have "Max (insert 0 (set (observed_top_scores st q kd fk))) =
        Max (set (observed_top_scores st q kd fk))"
      by (simp add: max_def)
    with a show "snd (snd (search_all_collections st q kd fk)) = Max (set (observed_top_scores st q kd fk))"
      by simp
  qed
  from a b c d show ?thesis by blast
qed

theorem confidence_signal_max_observed_witness:
  "observed_top_scores two_storage ''q'' 20 (Suc 0) = [3/10, 9/10] \<and>
   snd (snd (search_all_collections two_storage ''q'' 20 (Suc 0))) = 9/10 \<and>
   map (\<lambda>c. VectorStore_load broken_storage (path c)) (get_all_collections broken_storage) =
     [Inl (Exception ''corrupt index''), Inl (Exception ''corrupt index'')] \<and>
   snd (snd (search_all_collections broken_storage ''q'' 20 5)) = 0 \<and>
   get_all_collections empty_storage = [] \<and>
   snd (snd (search_all_collections empty_storage ''q'' 20 5)) = 0"
proof -
  have h1: "\<exists>t \<in> set (observed_top_scores two_storage ''q'' 20 (Suc 0)). 0 \<le> t"
    by (simp add: two_observed)
  have h2: "\<forall>c \<in> set (get_all_collections broken_storage).
      \<exists>e. VectorStore_load broken_storage (path c) = Inl e"
    by (simp add: broken_storage_def)
  have h3: "get_all_collections empty_storage = []"
    by (rule empty_collections)
  have "snd (snd (search_all_collections two_storage ''q'' 20 (Suc 0))) = 9/10"
    using confidence_signal_max_observed [of two_storage "''q''" 20 "Suc 0"] h1
    by (simp add: two_observed)
  moreover have "snd (snd (search_all_collections broken_storage ''q'' 20 5)) = 0"
    using confidence_signal_max_observed [of broken_storage "''q''" 20 5] h2 by blast
  moreover have "snd (snd (search_all_collections empty_storage ''q'' 20 5)) = 0"
    using confidence_signal_max_observed [of empty_storage "''q''" 20 5] h3 by blast
  moreover have "map (\<lambda>c. VectorStore_load broken_storage (path c)) (get_all_collections broken_storage) =
     [Inl (Exception ''corrupt index''), Inl (Exception ''corrupt index'')]"
    by (simp add: get_all_collections_def broken_storage_def)
  ultimately show ?thesis using h3 by (simp add: two_observed)
qed

text \<open>
  A single collection that loads and whose top score is \<open>-0.25\<close>: the maximum of the
  per-collection top scores is \<open>-0.25\<close>, the signal is \<open>0.0\<close>.
\<close>

theorem confidence_signal_counterexample:
  "get_all_collections negative_storage \<noteq> [] \<and>
   observed_top_scores negative_storage ''q'' 20 5 = [- (1/4)] \<and>
   snd (snd (search_all_collections negative_storage ''q'' 20 5)) = 0 \<and>
   snd (snd (search_all_collections negative_storage ''q'' 20 5)) \<noteq>
     Max (set (observed_top_scores negative_storage ''q'' 20 5))"
  by (simp add: search_all_collections_eq merge_all_max negative_observed negative_collections)

section \<open>Facts about the query endpoint\<close>

subsection \<open>Steps\<close>

lemma then_do_calling:
  "then_do (calling c r) f trail =
     (case r of Inl e \<Rightarrow> (Inl e, trail @ [c]) | Inr x \<Rightarrow> f x (trail @ [c]))"
  by (simp add: then_do_def calling_def split: sum.splits)

lemma then_do_generate:
  "then_do (generate sv p) f trail =
     (case llm_generate sv (length (filter is_generation trail)) p of
        Inl e \<Rightarrow> (Inl e, trail @ [Call_llm_generate p])
      | Inr x \<Rightarrow> f x (trail @ [Call_llm_generate p]))"
  by (simp add: then_do_def generate_def split: sum.splits)

lemma then_do_Inr:
  "then_do m f trail = (Inr y, trail') \<longleftrightarrow>
     (\<exists>x t. m trail = (Inr x, t) \<and> f x t = (Inr y, trail'))"
  by (auto simp: then_do_def split: prod.splits sum.splits)

subsection \<open>The generation step\<close>

lemma llm_error_answer_unfold:
  "llm_error_answer sv r trail =
     (if \<not> use_general r \<and> source_meta r \<noteq> [] then
        (case combined r of
           [] \<Rightarrow> (Inl (Exception ''list index out of range''), trail)
         | kv # rest \<Rightarrow>
             (case minimal_extractive_fallback sv [(fst kv, 0)] (combined r) of
                Inl e \<Rightarrow> (Inl e, trail @ [Call_minimal_extractive_fallback (fst kv)])
              | Inr fb \<Rightarrow> (Inr (fb, pages r), trail @ [Call_minimal_extractive_fallback (fst kv)])))
      else (Inr (''Sorry, I couldn't generate an answer right now.'', pages r), trail))"
  by (simp add: llm_error_answer_def then_do_calling returns_def raises_def
      split: list.splits prod.splits sum.splits)

lemma answer_or_retry_unfold:
  "answer_or_retry sv q cs r raw trail =
     (if \<not> use_general r \<and> unusable (strip raw) then
        (case build_prompt sv q cs (context_block r) True of
           Inl e \<Rightarrow> (Inl e, trail @ [Call_build_prompt True])
         | Inr p2 \<Rightarrow>
             (case llm_generate sv (length (filter is_generation trail)) p2 of
                Inl e \<Rightarrow> (Inl e, trail @ [Call_build_prompt True, Call_llm_generate p2])
              | Inr alt \<Rightarrow>
                  (Inr (if is_llm_error alt then (strip raw, pages r) else (strip alt, [])),
                   trail @ [Call_build_prompt True, Call_llm_generate p2])))
      else (Inr (strip raw, pages r), trail))"
  by (simp add: answer_or_retry_def then_do_calling then_do_generate returns_def Let_def
      split: sum.splits)

lemma generate_answer_unfold:
  "generate_answer sv q cs r trail =
     (case build_prompt sv q cs (context_block r) (use_general r) of
        Inl e \<Rightarrow> (Inl e, trail @ [Call_build_prompt (use_general r)])
      | Inr p \<Rightarrow>
          (case llm_generate sv (length (filter is_generation trail)) p of
             Inl e \<Rightarrow> (Inl e, trail @ [Call_build_prompt (use_general r), Call_llm_generate p])
           | Inr raw \<Rightarrow>
               (if is_llm_error raw then llm_error_answer sv r
                else answer_or_retry sv q cs r raw)
                 (trail @ [Call_build_prompt (use_general r), Call_llm_generate p])))"
  by (simp add: generate_answer_def then_do_calling then_do_generate split: sum.splits)

lemma llm_error_answer_trail:
  "filter is_generation (snd (llm_error_answer sv r trail)) = filter is_generation trail"
  "filter is_citation (snd (llm_error_answer sv r trail)) = filter is_citation trail"
  "filter is_retrieval (snd (llm_error_answer sv r trail)) = filter is_retrieval trail"
  by (simp_all add: llm_error_answer_unfold split: list.splits sum.splits)

lemma answer_or_retry_trail:
  "length (filter is_generation (snd (answer_or_retry sv q cs r raw trail))) \<le>
     Suc (length (filter is_generation trail))"
  "filter is_citation (snd (answer_or_retry sv q cs r raw trail)) = filter is_citation trail"
  "filter is_retrieval (snd (answer_or_retry sv q cs r raw trail)) = filter is_retrieval trail"
  by (simp_all add: answer_or_retry_unfold split: sum.splits)





lemma generate_answer_retrievals:
  "filter is_retrieval (snd (generate_answer sv q cs r trail)) = filter is_retrieval trail"
  by (simp add: generate_answer_unfold llm_error_answer_trail answer_or_retry_trail
      split: sum.splits)







lemma annotate_retrievals:
  "filter is_retrieval (snd (annotate sv r ap trail)) = filter is_retrieval trail"
  by (cases ap) (simp add: annotate_def calling_def returns_def)

subsection \<open>The retrieval step and the gate\<close>

lemma retrieve_generic:
  "retrieve sv st q True trail =
     (Inr \<lparr>context_block = [], pages = [], source_meta = [], combined = [], use_general = True\<rparr>,
      trail)"
  by (simp add: retrieve_def returns_def)

lemma retrieve_unfold:
  "retrieve sv st q False trail =
     (case search_all_collections st q (TOPK_DENSE sv) (TOPK_FINAL sv) of
        (fused, found_meta, signal) \<Rightarrow>
          if fused \<noteq> [] \<and> found_meta \<noteq> [] then
            (case make_context sv fused found_meta of
               Inl e \<Rightarrow> (Inl e, trail @ [Call_search_all_collections q, Call_make_context])
             | Inr (cb, pgs, srcs) \<Rightarrow>
                 (Inr \<lparr>context_block = cb, pages = pgs, source_meta = srcs, combined = found_meta,
                       use_general = (signal < LOW_CONFIDENCE_THRESH sv \<or> length srcs = 0)\<rparr>,
                  trail @ [Call_search_all_collections q, Call_make_context]))
          else
            (Inr \<lparr>context_block = [], pages = [], source_meta = [], combined = found_meta,
                  use_general = True\<rparr>,
             trail @ [Call_search_all_collections q]))"
  by (simp add: retrieve_def then_do_calling returns_def split: prod.splits sum.splits)

lemma retrieve_decision:
  assumes "search_all_collections st q (TOPK_DENSE sv) (TOPK_FINAL sv) = (fused, found_meta, signal)"
    and "retrieve sv st q False trail = (Inr r, trail')"
  shows "fused = [] \<or> found_meta = [] \<Longrightarrow>
           r = \<lparr>context_block = [], pages = [], source_meta = [], combined = found_meta,
                 use_general = True\<rparr> \<and>
           trail' = trail @ [Call_search_all_collections q]"
    and "fused \<noteq> [] \<Longrightarrow> found_meta \<noteq> [] \<Longrightarrow>
           \<exists>cb pgs srcs. make_context sv fused found_meta = Inr (cb, pgs, srcs) \<and>
             r = \<lparr>context_block = cb, pages = pgs, source_meta = srcs, combined = found_meta,
                   use_general = (signal < LOW_CONFIDENCE_THRESH sv \<or> srcs = [])\<rparr> \<and>
             trail' = trail @ [Call_search_all_collections q, Call_make_context]"
proof -
  show "fused = [] \<or> found_meta = [] \<Longrightarrow>
           r = \<lparr>context_block = [], pages = [], source_meta = [], combined = found_meta,
                 use_general = True\<rparr> \<and>
           trail' = trail @ [Call_search_all_collections q]"
    using assms by (auto simp: retrieve_unfold)
  show "fused \<noteq> [] \<Longrightarrow> found_meta \<noteq> [] \<Longrightarrow>
           \<exists>cb pgs srcs. make_context sv fused found_meta = Inr (cb, pgs, srcs) \<and>
             r = \<lparr>context_block = cb, pages = pgs, source_meta = srcs, combined = found_meta,
                   use_general = (signal < LOW_CONFIDENCE_THRESH sv \<or> srcs = [])\<rparr> \<and>
             trail' = trail @ [Call_search_all_collections q, Call_make_context]"
    using assms by (auto simp: retrieve_unfold split: sum.splits prod.splits)
qed

lemma retrieve_no_collections:
  assumes "get_all_collections st = []" and "retrieve sv st q generic trail = (Inr r, trail')"
  shows "use_general r"
proof (cases generic)
  case True
  with assms show ?thesis by (auto simp: retrieve_generic)
next
  case False
  have "search_all_collections st q (TOPK_DENSE sv) (TOPK_FINAL sv) = ([], [], 0)"
    using assms(1) by (simp add: search_all_collections_def)
  with False assms(2) show ?thesis by (auto simp: retrieve_unfold)
qed

subsection \<open>The body and the endpoint\<close>

lemma answer_query_Inr:
  assumes "answer_query sv st s q trail = (Inr (fa, r), trail')"
  shows "\<exists>generic t1. is_generic_query sv q = Inr generic \<and>
           retrieve sv st q generic (trail @ [Call_is_generic_query q]) = (Inr r, t1) \<and>
           filter is_retrieval trail' = filter is_retrieval t1"
proof -
  from assms obtain generic where g: "is_generic_query sv q = Inr generic"
    by (cases "is_generic_query sv q") (auto simp: answer_query_def Let_def then_do_calling)
  from assms g have rest: "then_do (retrieve sv st q generic)
        (\<lambda>r. then_do (generate_answer sv q (conversation_summary s) r)
          (\<lambda>ap. then_do (annotate sv r ap) (\<lambda>final_answer. returns (final_answer, r))))
        (trail @ [Call_is_generic_query q]) = (Inr (fa, r), trail')"
    by (simp add: answer_query_def Let_def then_do_calling)
  then obtain r1 t1 where r1: "retrieve sv st q generic (trail @ [Call_is_generic_query q]) = (Inr r1, t1)"
    and rest1: "then_do (generate_answer sv q (conversation_summary s) r1)
          (\<lambda>ap. then_do (annotate sv r1 ap) (\<lambda>final_answer. returns (final_answer, r1))) t1 =
        (Inr (fa, r), trail')"
    by (auto simp: then_do_Inr)
  then obtain ap t2 where ga: "generate_answer sv q (conversation_summary s) r1 t1 = (Inr ap, t2)"
    and rest2: "then_do (annotate sv r1 ap) (\<lambda>final_answer. returns (final_answer, r1)) t2 =
        (Inr (fa, r), trail')"
    by (auto simp: then_do_Inr)
  then obtain a t3 where an: "annotate sv r1 ap t2 = (Inr a, t3)"
    and fin: "returns (a, r1) t3 = (Inr (fa, r), trail')"
    by (auto simp: then_do_Inr)
  from fin have eq: "r1 = r" "t3 = trail'" by (simp_all add: returns_def)
  have "filter is_retrieval t2 = filter is_retrieval t1"
    using generate_answer_retrievals [of sv q "conversation_summary s" r1 t1] ga by simp
  moreover have "filter is_retrieval t3 = filter is_retrieval t2"
    using annotate_retrievals [of sv r1 ap t2] an by simp
  ultimately show ?thesis using g r1 eq by auto
qed

lemma get_or_create_session_Some:
  assumes "i \<noteq> []"
  shows "get_or_create_session sv sessions (Some i) =
     (stored_under sv sessions i,
      (case sessions i of None \<Rightarrow> new_session sv | Some s \<Rightarrow> s),
      (case sessions i of None \<Rightarrow> sessions(uuid4 sv \<mapsto> new_session sv) | Some s \<Rightarrow> sessions))"
  using assms by (simp add: stored_under_def split: option.splits)

lemma session_found_messages:
  "messages (case sessions i of None \<Rightarrow> new_session sv | Some s \<Rightarrow> s) = old_messages sessions i"
  by (simp add: old_messages_def new_session_def split: option.splits)

lemma query_rejected:
  "req_session_id req = None \<or> req_session_id req = Some [] \<Longrightarrow>
     query sv st sessions req trail = (Error ''session_id required'' 400, sessions, trail)"
  "req_session_id req = Some i \<Longrightarrow> i \<noteq> [] \<Longrightarrow> user_query_of req = [] \<Longrightarrow>
     query sv st sessions req trail = (Error ''query cannot be empty'' 400, sessions, trail)"
  by (auto simp: query_def Let_def)

lemma query_valid:
  assumes "req_session_id req = Some i" and "i \<noteq> []" and "user_query_of req \<noteq> []"
    and "get_or_create_session sv sessions (Some i) = (sid, s, sessions1)"
  shows "query sv st sessions req trail =
     (case answer_query sv st (s\<lparr>messages := messages s @ [user_message sv req]\<rparr>)
             (user_query_of req) trail of
        (Inl (Exception msg), t) \<Rightarrow>
          (Error msg 500, sessions1(sid \<mapsto> s\<lparr>messages := messages s @ [user_message sv req]\<rparr>), t)
      | (Inr (final_answer, r), t) \<Rightarrow>
          (case jsonify sv \<lparr>answer = final_answer,
                  sources = (if \<not> use_general r then source_meta r else []),
                  used_documents = (\<not> use_general r),
                  reply_timestamp = now sv 3\<rparr> of
             Inl (Exception msg) \<Rightarrow>
               (Error msg 500,
                sessions1(sid \<mapsto> s\<lparr>messages := messages s @
                   [user_message sv req, assistant_message sv final_answer]\<rparr>), t)
           | Inr u \<Rightarrow>
               (Ok \<lparr>answer = final_answer,
                    sources = (if \<not> use_general r then source_meta r else []),
                    used_documents = (\<not> use_general r),
                    reply_timestamp = now sv 3\<rparr>,
                sessions1(sid \<mapsto> s\<lparr>messages := messages s @
                   [user_message sv req, assistant_message sv final_answer]\<rparr>), t)))"
  using assms
  by (simp add: query_def Let_def user_message_def assistant_message_def
      split: prod.splits sum.splits exn.splits)

subsection \<open>The example services\<close>

lemma refund_request_query: "user_query_of refund_request = refund_query"
  by (simp add: user_query_of_def refund_request_def strip_def isspace_def refund_query_def)

lemma refund_query_nonempty: "refund_query \<noteq> []"
  by (simp add: refund_query_def)

lemma two_search_5:
  "search_all_collections two_storage q 20 5 =
     ([(''b::0'', 9/10), (''a::0'', 3/10)], combined two_retrieved, 9/10)"
  by (simp add: search_all_collections_def two_collections merge_all_def search_collection_def
        sort_by_score_reverse_def Let_def two_load store_a_def store_b_def two_retrieved_def)


lemma two_retrieve:
  assumes "make_context sv = make_context demo_services"
    and "TOPK_DENSE sv = 20" and "TOPK_FINAL sv = 5" and "LOW_CONFIDENCE_THRESH sv = 1/4"
  shows "retrieve sv two_storage q False trail =
     (Inr two_retrieved, trail @ [Call_search_all_collections q, Call_make_context])"
  using assms
  by (simp add: retrieve_unfold two_search_5 demo_services_def spec_make_context_def
        two_retrieved_def)


lemma answer_query_unfold:
  "answer_query sv st s q trail =
     (case is_generic_query sv q of
        Inl e \<Rightarrow> (Inl e, trail @ [Call_is_generic_query q])
      | Inr generic \<Rightarrow>
          (case retrieve sv st q generic (trail @ [Call_is_generic_query q]) of
             (Inl e, t1) \<Rightarrow> (Inl e, t1)
           | (Inr r, t1) \<Rightarrow>
               (case generate_answer sv q (conversation_summary s) r t1 of
                  (Inl e, t2) \<Rightarrow> (Inl e, t2)
                | (Inr ap, t2) \<Rightarrow>
                    (case annotate sv r ap t2 of
                       (Inl e, t3) \<Rightarrow> (Inl e, t3)
                     | (Inr final_answer, t3) \<Rightarrow> (Inr (final_answer, r), t3)))))"
  by (simp add: answer_query_def Let_def then_do_def calling_def returns_def
      split: sum.splits prod.splits)


lemma hello_request_query: "user_query_of hello_request = ''hello''"
  by (simp add: user_query_of_def hello_request_def strip_def isspace_def)

lemma query_fresh:
  assumes "req_session_id req = Some i" and "i \<noteq> []" and "user_query_of req \<noteq> []"
  shows "query sv st Map.empty req trail =
     (case answer_query sv st ((new_session sv)\<lparr>messages := [user_message sv req]\<rparr>)
             (user_query_of req) trail of
        (Inl (Exception msg), t) \<Rightarrow>
          (Error msg 500,
           [uuid4 sv \<mapsto> (new_session sv)\<lparr>messages := [user_message sv req]\<rparr>], t)
      | (Inr (final_answer, r), t) \<Rightarrow>
          (case jsonify sv \<lparr>answer = final_answer,
                  sources = (if \<not> use_general r then source_meta r else []),
                  used_documents = (\<not> use_general r),
                  reply_timestamp = now sv 3\<rparr> of
             Inl (Exception msg) \<Rightarrow>
               (Error msg 500,
                [uuid4 sv \<mapsto> (new_session sv)\<lparr>messages :=
                   [user_message sv req, assistant_message sv final_answer]\<rparr>], t)
           | Inr u \<Rightarrow>
               (Ok \<lparr>answer = final_answer,
                    sources = (if \<not> use_general r then source_meta r else []),
                    used_documents = (\<not> use_general r),
                    reply_timestamp = now sv 3\<rparr>,
                [uuid4 sv \<mapsto> (new_session sv)\<lparr>messages :=
                   [user_message sv req, assistant_message sv final_answer]\<rparr>], t)))"
proof -
  have gc: "get_or_create_session sv Map.empty (Some i) =
      (uuid4 sv, new_session sv, [uuid4 sv \<mapsto> new_session sv])"
    using assms(2) by simp
  have m: "messages (new_session sv) = []"
    by (simp add: new_session_def)
  show ?thesis
    using query_valid [OF assms gc, of st trail]
    by (simp add: m split: prod.splits sum.splits exn.splits)
qed


lemma llm_down_two_answer:
  "answer_query llm_down_services two_storage s refund_query [] =
     (Inr (''Shipping takes 5 days. [*] [*]'', two_retrieved),
      [Call_is_generic_query refund_query, Call_search_all_collections refund_query,
       Call_make_context, Call_build_prompt False,
       Call_llm_generate ''grounded: What is the refund policy?'',
       Call_minimal_extractive_fallback ''a::0'',
       Call_add_inline_citations ''Shipping takes 5 days.'' [2, 7]])"
proof -
  have r: "retrieve llm_down_services two_storage refund_query False
      [Call_is_generic_query refund_query] =
     (Inr two_retrieved, [Call_is_generic_query refund_query,
        Call_search_all_collections refund_query, Call_make_context])"
    using two_retrieve [of llm_down_services refund_query "[Call_is_generic_query refund_query]"]
    by (simp add: llm_down_services_def demo_services_def)
  have g: "generate_answer llm_down_services refund_query cs two_retrieved
      [Call_is_generic_query refund_query, Call_search_all_collections refund_query,
       Call_make_context] =
     (Inr (''Shipping takes 5 days.'', [2, 7]),
      [Call_is_generic_query refund_query, Call_search_all_collections refund_query,
       Call_make_context, Call_build_prompt False,
       Call_llm_generate ''grounded: What is the refund policy?'',
       Call_minimal_extractive_fallback ''a::0''])" for cs
    by (simp add: generate_answer_unfold llm_error_answer_unfold llm_down_services_def
        demo_services_def two_retrieved_def refund_query_def is_llm_error_def
        spec_minimal_extractive_fallback_def)
  have a: "annotate llm_down_services two_retrieved (''Shipping takes 5 days.'', [2, 7]) t =
     (Inr ''Shipping takes 5 days. [*] [*]'',
      t @ [Call_add_inline_citations ''Shipping takes 5 days.'' [2, 7]])" for t
    by (simp add: annotate_def calling_def llm_down_services_def demo_services_def
        two_retrieved_def spec_add_inline_citations_def)
  have c: "is_generic_query llm_down_services refund_query = Inr False"
    by (simp add: llm_down_services_def demo_services_def refund_query_def)
  show ?thesis
    by (simp add: answer_query_unfold c r g a)
qed

lemma demo_two_answer:
  "answer_query demo_services two_storage s refund_query [] =
     (Inr (''Refunds take 14 days. [*] [*]'', two_retrieved),
      [Call_is_generic_query refund_query, Call_search_all_collections refund_query,
       Call_make_context, Call_build_prompt False,
       Call_llm_generate ''grounded: What is the refund policy?'',
       Call_add_inline_citations ''Refunds take 14 days.'' [2, 7]])"
proof -
  have r: "retrieve demo_services two_storage refund_query False
      [Call_is_generic_query refund_query] =
     (Inr two_retrieved, [Call_is_generic_query refund_query,
        Call_search_all_collections refund_query, Call_make_context])"
    using two_retrieve [of demo_services refund_query "[Call_is_generic_query refund_query]"]
    by (simp add: demo_services_def)
  have g: "generate_answer demo_services refund_query cs two_retrieved
      [Call_is_generic_query refund_query, Call_search_all_collections refund_query,
       Call_make_context] =
     (Inr (''Refunds take 14 days.'', [2, 7]),
      [Call_is_generic_query refund_query, Call_search_all_collections refund_query,
       Call_make_context, Call_build_prompt False,
       Call_llm_generate ''grounded: What is the refund policy?''])" for cs
    by (simp add: generate_answer_unfold answer_or_retry_unfold
        demo_services_def two_retrieved_def refund_query_def is_llm_error_def unusable_def
        strip_def isspace_def sublist_code)
  have a: "annotate demo_services two_retrieved (''Refunds take 14 days.'', [2, 7]) t =
     (Inr ''Refunds take 14 days. [*] [*]'',
      t @ [Call_add_inline_citations ''Refunds take 14 days.'' [2, 7]])" for t
    by (simp add: annotate_def calling_def demo_services_def
        two_retrieved_def spec_add_inline_citations_def)
  have c: "is_generic_query demo_services refund_query = Inr False"
    by (simp add: demo_services_def refund_query_def)
  show ?thesis
    by (simp add: answer_query_unfold c r g a)
qed

lemma demo_hello_answer:
  "answer_query demo_services st s ''hello'' [] =
     (Inr (''Refunds take 14 days.'',
           \<lparr>context_block = [], pages = [], source_meta = [], combined = [], use_general = True\<rparr>),
      [Call_is_generic_query ''hello'', Call_build_prompt True,
       Call_llm_generate ''general: hello''])"
  by (simp add: answer_query_unfold retrieve_generic generate_answer_unfold
      answer_or_retry_unfold annotate_def returns_def demo_services_def is_llm_error_def
      strip_def isspace_def)

lemma demo_empty_answer:
  "answer_query demo_services empty_storage s refund_query [] =
     (Inr (''Refunds take 14 days.'',
           \<lparr>context_block = [], pages = [], source_meta = [], combined = [], use_general = True\<rparr>),
      [Call_is_generic_query refund_query, Call_search_all_collections refund_query,
       Call_build_prompt True,
       Call_llm_generate ''general: What is the refund policy?''])"
proof -
  have "search_all_collections empty_storage q kd fk = ([], [], 0)" for q kd fk
    by (simp add: search_all_collections_def empty_collections)
  then show ?thesis
    by (simp add: answer_query_unfold retrieve_unfold generate_answer_unfold
      answer_or_retry_unfold annotate_def returns_def demo_services_def is_llm_error_def
      refund_query_def strip_def isspace_def)
qed

lemma failing_two_answer:
  "answer_query failing_services two_storage s refund_query [] =
     (Inl (Exception ''template missing''),
      [Call_is_generic_query refund_query, Call_search_all_collections refund_query,
       Call_make_context, Call_build_prompt False])"
proof -
  have r: "retrieve failing_services two_storage refund_query False
      [Call_is_generic_query refund_query] =
     (Inr two_retrieved, [Call_is_generic_query refund_query,
        Call_search_all_collections refund_query, Call_make_context])"
    using two_retrieve [of failing_services refund_query "[Call_is_generic_query refund_query]"]
    by (simp add: failing_services_def demo_services_def)
  have g: "generate_answer failing_services refund_query cs two_retrieved
      [Call_is_generic_query refund_query, Call_search_all_collections refund_query,
       Call_make_context] =
     (Inl (Exception ''template missing''),
      [Call_is_generic_query refund_query, Call_search_all_collections refund_query,
       Call_make_context, Call_build_prompt False])" for cs
    by (simp add: generate_answer_unfold failing_services_def demo_services_def
        two_retrieved_def)
  have c: "is_generic_query failing_services refund_query = Inr False"
    by (simp add: failing_services_def demo_services_def refund_query_def)
  show ?thesis
    by (simp add: answer_query_unfold c r g)
qed

lemma services_clock:
  "now demo_services n = ''2024-01-01T00:00:00''"
  "now llm_down_services n = ''2024-01-01T00:00:00''"
  "now scenario_e_services n = ''2024-01-01T00:00:00''"
  "now failing_services n = ''2024-01-01T00:00:00''"
  "uuid4 demo_services = ''uuid-1''"
  "jsonify demo_services body = Inr ()"
  "jsonify llm_down_services body = Inr ()"
  "jsonify scenario_e_services body = Inr ()"
  by (simp_all add: demo_services_def llm_down_services_def scenario_e_services_def
      failing_services_def)

lemma refund_request_id: "req_session_id refund_request = Some ''abc''"
  by (simp add: refund_request_def)

lemma hello_request_id: "req_session_id hello_request = Some ''abc''"
  by (simp add: hello_request_def)

lemma retrieved_general:
  "use_general two_retrieved = False" "use_general tie_retrieved = False"
  by (simp_all add: two_retrieved_def tie_retrieved_def)

lemma query_fresh_Ok:
  assumes "req_session_id req = Some i" and "i \<noteq> []" and "user_query_of req \<noteq> []"
    and "answer_query sv st ((new_session sv)\<lparr>messages := [user_message sv req]\<rparr>)
           (user_query_of req) trail = (Inr (final_answer, r), t)"
    and "\<And>body. jsonify sv body = Inr ()"
  shows "query sv st Map.empty req trail =
     (Ok \<lparr>answer = final_answer,
          sources = (if \<not> use_general r then source_meta r else []),
          used_documents = (\<not> use_general r),
          reply_timestamp = now sv 3\<rparr>,
      [uuid4 sv \<mapsto> (new_session sv)\<lparr>messages := [user_message sv req,
         \<lparr>role = ''assistant'', content = final_answer, timestamp = now sv 2\<rparr>]\<rparr>], t)"
  using query_fresh [OF assms(1-3), of sv st trail] assms(4,5)
  by (simp add: assistant_message_def)



lemma llm_down_two_query:
  "query llm_down_services two_storage Map.empty refund_request [] =
     (Ok \<lparr>answer = ''Shipping takes 5 days. [*] [*]'', sources = source_meta two_retrieved,
          used_documents = True, reply_timestamp = ''2024-01-01T00:00:00''\<rparr>,
      [uuid4 llm_down_services \<mapsto> (new_session llm_down_services)\<lparr>messages :=
         [user_message llm_down_services refund_request,
          \<lparr>role = ''assistant'', content = ''Shipping takes 5 days. [*] [*]'',
            timestamp = now llm_down_services 2\<rparr>]\<rparr>],
      [Call_is_generic_query refund_query, Call_search_all_collections refund_query,
       Call_make_context, Call_build_prompt False,
       Call_llm_generate ''grounded: What is the refund policy?'',
       Call_minimal_extractive_fallback ''a::0'',
       Call_add_inline_citations ''Shipping takes 5 days.'' [2, 7]])"
  using query_fresh_Ok [where req = refund_request and i = "''abc''" and sv = llm_down_services
      and st = two_storage and trail = "[]", OF refund_request_id]
  by (simp add: refund_request_query refund_query_nonempty llm_down_two_answer retrieved_general
      services_clock)

lemma demo_two_query:
  "query demo_services two_storage Map.empty refund_request [] =
     (Ok \<lparr>answer = ''Refunds take 14 days. [*] [*]'', sources = source_meta two_retrieved,
          used_documents = True, reply_timestamp = ''2024-01-01T00:00:00''\<rparr>,
      [''uuid-1'' \<mapsto> (new_session demo_services)\<lparr>messages :=
         [user_message demo_services refund_request,
          \<lparr>role = ''assistant'', content = ''Refunds take 14 days. [*] [*]'',
            timestamp = ''2024-01-01T00:00:00''\<rparr>]\<rparr>],
      [Call_is_generic_query refund_query, Call_search_all_collections refund_query,
       Call_make_context, Call_build_prompt False,
       Call_llm_generate ''grounded: What is the refund policy?'',
       Call_add_inline_citations ''Refunds take 14 days.'' [2, 7]])"
  using query_fresh_Ok [where req = refund_request and i = "''abc''" and sv = demo_services
      and st = two_storage and trail = "[]", OF refund_request_id]
  by (simp add: refund_request_query refund_query_nonempty demo_two_answer retrieved_general
      services_clock)

lemma demo_hello_query:
  "query demo_services two_storage Map.empty hello_request [] =
     (Ok \<lparr>answer = ''Refunds take 14 days.'', sources = [],
          used_documents = False, reply_timestamp = ''2024-01-01T00:00:00''\<rparr>,
      [''uuid-1'' \<mapsto> (new_session demo_services)\<lparr>messages :=
         [user_message demo_services hello_request,
          \<lparr>role = ''assistant'', content = ''Refunds take 14 days.'',
            timestamp = ''2024-01-01T00:00:00''\<rparr>]\<rparr>],
      [Call_is_generic_query ''hello'', Call_build_prompt True,
       Call_llm_generate ''general: hello''])"
  using query_fresh_Ok [where req = hello_request and i = "''abc''" and sv = demo_services
      and st = two_storage and trail = "[]", OF hello_request_id]
  by (simp add: hello_request_query demo_hello_answer services_clock)

lemma demo_empty_query:
  "query demo_services empty_storage Map.empty refund_request [] =
     (Ok \<lparr>answer = ''Refunds take 14 days.'', sources = [],
          used_documents = False, reply_timestamp = ''2024-01-01T00:00:00''\<rparr>,
      [''uuid-1'' \<mapsto> (new_session demo_services)\<lparr>messages :=
         [user_message demo_services refund_request,
          \<lparr>role = ''assistant'', content = ''Refunds take 14 days.'',
            timestamp = ''2024-01-01T00:00:00''\<rparr>]\<rparr>],
      [Call_is_generic_query refund_query, Call_search_all_collections refund_query,
       Call_build_prompt True,
       Call_llm_generate ''general: What is the refund policy?''])"
  using query_fresh_Ok [where req = refund_request and i = "''abc''" and sv = demo_services
      and st = empty_storage and trail = "[]", OF refund_request_id]
  by (simp add: refund_request_query refund_query_nonempty demo_empty_answer services_clock)

lemma unserialisable_two_answer:
  "answer_query unserialisable_services two_storage s refund_query [] =
     (Inr (''Refunds take 14 days. [*] [*]'', two_retrieved),
      [Call_is_generic_query refund_query, Call_search_all_collections refund_query,
       Call_make_context, Call_build_prompt False,
       Call_llm_generate ''grounded: What is the refund policy?'',
       Call_add_inline_citations ''Refunds take 14 days.'' [2, 7]])"
proof -
  have r: "retrieve unserialisable_services two_storage refund_query False
      [Call_is_generic_query refund_query] =
     (Inr two_retrieved, [Call_is_generic_query refund_query,
        Call_search_all_collections refund_query, Call_make_context])"
    using two_retrieve [of unserialisable_services refund_query
        "[Call_is_generic_query refund_query]"]
    by (simp add: unserialisable_services_def demo_services_def)
  have g: "generate_answer unserialisable_services refund_query cs two_retrieved
      [Call_is_generic_query refund_query, Call_search_all_collections refund_query,
       Call_make_context] =
     (Inr (''Refunds take 14 days.'', [2, 7]),
      [Call_is_generic_query refund_query, Call_search_all_collections refund_query,
       Call_make_context, Call_build_prompt False,
       Call_llm_generate ''grounded: What is the refund policy?''])" for cs
    by (simp add: generate_answer_unfold answer_or_retry_unfold unserialisable_services_def
        demo_services_def two_retrieved_def refund_query_def is_llm_error_def unusable_def
        strip_def isspace_def sublist_code)
  have a: "annotate unserialisable_services two_retrieved (''Refunds take 14 days.'', [2, 7]) t =
     (Inr ''Refunds take 14 days. [*] [*]'',
      t @ [Call_add_inline_citations ''Refunds take 14 days.'' [2, 7]])" for t
    by (simp add: annotate_def calling_def unserialisable_services_def demo_services_def
        two_retrieved_def spec_add_inline_citations_def)
  have c: "is_generic_query unserialisable_services refund_query = Inr False"
    by (simp add: unserialisable_services_def demo_services_def refund_query_def)
  show ?thesis
    by (simp add: answer_query_unfold c r g a)
qed

lemma unserialisable_jsonify:
  "jsonify unserialisable_services body = Inl (Exception ''Object is not JSON serializable'')"
  by (simp add: unserialisable_services_def)

lemma abc_known:
  "get_or_create_session sv [''abc'' \<mapsto> two_messages] (Some ''abc'') =
     (''abc'', two_messages, [''abc'' \<mapsto> two_messages])"
  "stored_under sv [''abc'' \<mapsto> two_messages] ''abc'' = ''abc''"
  "old_messages [''abc'' \<mapsto> two_messages] ''abc'' = messages two_messages"
  by (simp_all add: stored_under_def old_messages_def)

lemma bare_collections:
  "get_all_collections bare_storage = [\<lparr>id_collection = ''m'', path = ''vs/m''\<rparr>]"
  by (simp add: get_all_collections_def bare_storage_def os_path_join_def)

lemma bare_search:
  "search_all_collections bare_storage q 20 5 = ([(''m::0'', 9/10)], [], 9/10)"
proof -
  have "VectorStore_load bare_storage p = Inr bare_store" for p
    by (simp add: bare_storage_def)
  then show ?thesis
    by (simp add: search_all_collections_def bare_collections merge_all_def
        search_collection_def sort_by_score_reverse_def Let_def bare_store_def)
qed

lemma demo_bare_answer:
  "answer_query demo_services bare_storage s refund_query [] =
     (Inr (''Refunds take 14 days.'',
           \<lparr>context_block = [], pages = [], source_meta = [], combined = [], use_general = True\<rparr>),
      [Call_is_generic_query refund_query, Call_search_all_collections refund_query,
       Call_build_prompt True,
       Call_llm_generate ''general: What is the refund policy?''])"
proof -
  have "search_all_collections bare_storage q (TOPK_DENSE demo_services) (TOPK_FINAL demo_services) =
      ([(''m::0'', 9/10)], [], 9/10)" for q
    using bare_search [of q] by (simp add: demo_services_def)
  then have r: "retrieve demo_services bare_storage q False t =
      (Inr \<lparr>context_block = [], pages = [], source_meta = [], combined = [], use_general = True\<rparr>,
       t @ [Call_search_all_collections q])" for q t
    by (simp add: retrieve_unfold)
  have c: "is_generic_query demo_services refund_query = Inr False"
    by (simp add: demo_services_def refund_query_def)
  show ?thesis
    by (simp add: answer_query_unfold c r)
       (simp add: generate_answer_unfold answer_or_retry_unfold annotate_def returns_def
          demo_services_def is_llm_error_def refund_query_def strip_def isspace_def)
qed

lemma demo_bare_query:
  "query demo_services bare_storage Map.empty refund_request [] =
     (Ok \<lparr>answer = ''Refunds take 14 days.'', sources = [],
          used_documents = False, reply_timestamp = ''2024-01-01T00:00:00''\<rparr>,
      [''uuid-1'' \<mapsto> (new_session demo_services)\<lparr>messages :=
         [user_message demo_services refund_request,
          \<lparr>role = ''assistant'', content = ''Refunds take 14 days.'',
            timestamp = ''2024-01-01T00:00:00''\<rparr>]\<rparr>],
      [Call_is_generic_query refund_query, Call_search_all_collections refund_query,
       Call_build_prompt True,
       Call_llm_generate ''general: What is the refund policy?''])"
  using query_fresh_Ok [where req = refund_request and i = "''abc''" and sv = demo_services
      and st = bare_storage and trail = "[]", OF refund_request_id]
  by (simp add: refund_request_query refund_query_nonempty demo_bare_answer services_clock)

section \<open>The claims about the query endpoint\<close>

subsection \<open>The retry\<close>




subsection \<open>Citations\<close>




subsection \<open>The extractive fallback\<close>

text \<open>
  Claim C4, at an input on which the code departs from it. Two collections are listed,
  \<open>a\<close> before \<open>b\<close>; the highest-ranked candidate is \<open>b::0\<close>, with score 0.9. The generator
  returns the error sentinel on the grounded attempt. The fallback is called with the
  first key of the metadata mapping, \<open>a::0\<close>, the candidate of the collection listed
  first, and the answer is built from its text, not from the text of \<open>b::0\<close>. No error
  is returned.
\<close>

theorem fallback_takes_first_key:
  "map fst (fst (search_all_collections two_storage refund_query 20 5)) = [''b::0'', ''a::0''] \<and>
   map fst (fst (snd (search_all_collections two_storage refund_query 20 5))) = [''a::0'', ''b::0''] \<and>
   fst (query llm_down_services two_storage Map.empty refund_request []) =
     Ok \<lparr>answer = ''Shipping takes 5 days. [*] [*]'', sources = source_meta two_retrieved,
         used_documents = True, reply_timestamp = ''2024-01-01T00:00:00''\<rparr> \<and>
   snd (snd (query llm_down_services two_storage Map.empty refund_request [])) =
     [Call_is_generic_query refund_query, Call_search_all_collections refund_query,
      Call_make_context, Call_build_prompt False,
      Call_llm_generate ''grounded: What is the refund policy?'',
      Call_minimal_extractive_fallback ''a::0'',
      Call_add_inline_citations ''Shipping takes 5 days.'' [2, 7]]"
  by (simp add: llm_down_two_query two_search_5) (simp add: two_retrieved_def)

subsection \<open>The confidence gate\<close>

text \<open>
  Claim C7, as the code has it. A query classified generic is answered generically and
  no collection is searched. For any other query the decision is a function of the
  confidence signal, the returned candidate list, the metadata mapping and the sources
  that \<open>make_context\<close> tracks for them: when the returned list or the mapping is empty the
  answer is generic and \<open>make_context\<close> is not called; otherwise the answer is generic
  exactly when the signal is below the threshold or no source was tracked, and grounded
  otherwise. The response says \<open>used_documents\<close> exactly when the decision is grounded,
  its sources are then the tracked sources and are empty when it is not; with no
  collection at all the response has \<open>used_documents\<close> false and no sources.
\<close>

theorem gate_decision:
  "retrieve sv st q True trail =
     (Inr \<lparr>context_block = [], pages = [], source_meta = [], combined = [], use_general = True\<rparr>,
      trail) \<and>
   (search_all_collections st q (TOPK_DENSE sv) (TOPK_FINAL sv) = (fused, found_meta, signal) \<and>
    retrieve sv st q False trail = (Inr r, trail') \<longrightarrow>
      (fused = [] \<or> found_meta = [] \<longrightarrow>
         use_general r \<and> source_meta r = [] \<and>
         trail' = trail @ [Call_search_all_collections q]) \<and>
      (fused \<noteq> [] \<and> found_meta \<noteq> [] \<longrightarrow>
         (\<exists>cb pgs. make_context sv fused found_meta = Inr (cb, pgs, source_meta r)) \<and>
         use_general r = (signal < LOW_CONFIDENCE_THRESH sv \<or> source_meta r = []))) \<and>
   (query sv st sessions req trail = (Ok rep, sessions', trail') \<and>
    is_generic_query sv (user_query_of req) = Inr generic \<and>
    search_all_collections st (user_query_of req) (TOPK_DENSE sv) (TOPK_FINAL sv) =
      (fused, found_meta, signal) \<longrightarrow>
      (generic \<longrightarrow> \<not> used_documents rep \<and>
         filter is_retrieval trail' = filter is_retrieval trail) \<and>
      (\<not> generic \<and> (fused = [] \<or> found_meta = []) \<longrightarrow> \<not> used_documents rep) \<and>
      (\<not> generic \<and> fused \<noteq> [] \<and> found_meta \<noteq> [] \<longrightarrow>
         (\<exists>cb pgs srcs. make_context sv fused found_meta = Inr (cb, pgs, srcs) \<and>
            used_documents rep = (\<not> (signal < LOW_CONFIDENCE_THRESH sv \<or> srcs = [])) \<and>
            (used_documents rep \<longrightarrow> sources rep = srcs))) \<and>
      (\<not> used_documents rep \<longrightarrow> sources rep = []) \<and>
      (get_all_collections st = [] \<longrightarrow> \<not> used_documents rep \<and> sources rep = []))"
proof -
  have b: "(fused = [] \<or> found_meta = [] \<longrightarrow>
         use_general r \<and> source_meta r = [] \<and>
         trail' = trail @ [Call_search_all_collections q]) \<and>
      (fused \<noteq> [] \<and> found_meta \<noteq> [] \<longrightarrow>
         (\<exists>cb pgs. make_context sv fused found_meta = Inr (cb, pgs, source_meta r)) \<and>
         use_general r = (signal < LOW_CONFIDENCE_THRESH sv \<or> source_meta r = []))"
    if h: "search_all_collections st q (TOPK_DENSE sv) (TOPK_FINAL sv) = (fused, found_meta, signal) \<and>
      retrieve sv st q False trail = (Inr r, trail')"
  proof -
    from h have s: "search_all_collections st q (TOPK_DENSE sv) (TOPK_FINAL sv) =
        (fused, found_meta, signal)"
      and r: "retrieve sv st q False trail = (Inr r, trail')" by simp_all
    have one: "fused = [] \<or> found_meta = [] \<longrightarrow>
         use_general r \<and> source_meta r = [] \<and>
         trail' = trail @ [Call_search_all_collections q]"
      using retrieve_decision(1) [OF s r] by auto
    have two: "fused \<noteq> [] \<and> found_meta \<noteq> [] \<longrightarrow>
         (\<exists>cb pgs. make_context sv fused found_meta = Inr (cb, pgs, source_meta r)) \<and>
         use_general r = (signal < LOW_CONFIDENCE_THRESH sv \<or> source_meta r = [])"
      using retrieve_decision(2) [OF s r] by auto
    from one two show ?thesis by blast
  qed
  have c: "(generic \<longrightarrow> \<not> used_documents rep \<and>
         filter is_retrieval trail' = filter is_retrieval trail) \<and>
      (\<not> generic \<and> (fused = [] \<or> found_meta = []) \<longrightarrow> \<not> used_documents rep) \<and>
      (\<not> generic \<and> fused \<noteq> [] \<and> found_meta \<noteq> [] \<longrightarrow>
         (\<exists>cb pgs srcs. make_context sv fused found_meta = Inr (cb, pgs, srcs) \<and>
            used_documents rep = (\<not> (signal < LOW_CONFIDENCE_THRESH sv \<or> srcs = [])) \<and>
            (used_documents rep \<longrightarrow> sources rep = srcs))) \<and>
      (\<not> used_documents rep \<longrightarrow> sources rep = []) \<and>
      (get_all_collections st = [] \<longrightarrow> \<not> used_documents rep \<and> sources rep = [])"
    if h: "query sv st sessions req trail = (Ok rep, sessions', trail') \<and>
      is_generic_query sv (user_query_of req) = Inr generic \<and>
      search_all_collections st (user_query_of req) (TOPK_DENSE sv) (TOPK_FINAL sv) =
        (fused, found_meta, signal)"
  proof -
    let ?q = "user_query_of req"
    from h have q: "query sv st sessions req trail = (Ok rep, sessions', trail')"
      and g: "is_generic_query sv ?q = Inr generic"
      and s: "search_all_collections st ?q (TOPK_DENSE sv) (TOPK_FINAL sv) =
        (fused, found_meta, signal)" by simp_all
    from q obtain i where i: "req_session_id req = Some i" "i \<noteq> []" and nonempty: "?q \<noteq> []"
      by (cases "req_session_id req") (auto simp: query_def Let_def split: if_splits)
    obtain sid s0 known where gc: "get_or_create_session sv sessions (Some i) = (sid, s0, known)"
      by (cases "get_or_create_session sv sessions (Some i)") auto
    let ?s1 = "s0\<lparr>messages := messages s0 @ [user_message sv req]\<rparr>"
    from q query_valid [OF i nonempty gc, of st trail]
    obtain fa r1 where aq: "answer_query sv st ?s1 ?q trail = (Inr (fa, r1), trail')"
      and rep: "rep = \<lparr>answer = fa, sources = (if \<not> use_general r1 then source_meta r1 else []),
                       used_documents = (\<not> use_general r1), reply_timestamp = now sv 3\<rparr>"
      by (auto split: prod.splits sum.splits exn.splits)
    from answer_query_Inr [OF aq] g obtain t1 where
      r1: "retrieve sv st ?q generic (trail @ [Call_is_generic_query ?q]) = (Inr r1, t1)"
      and t1: "filter is_retrieval trail' = filter is_retrieval t1"
      by auto
    have one: "generic \<longrightarrow> \<not> used_documents rep \<and>
         filter is_retrieval trail' = filter is_retrieval trail"
    proof
      assume gen: generic
      with r1 have "t1 = trail @ [Call_is_generic_query ?q]" and "use_general r1"
        by (auto simp: retrieve_generic)
      with t1 rep show "\<not> used_documents rep \<and>
         filter is_retrieval trail' = filter is_retrieval trail"
        by simp
    qed
    have two: "\<not> generic \<and> (fused = [] \<or> found_meta = []) \<longrightarrow> \<not> used_documents rep"
    proof
      assume a: "\<not> generic \<and> (fused = [] \<or> found_meta = [])"
      with r1 have "retrieve sv st ?q False (trail @ [Call_is_generic_query ?q]) = (Inr r1, t1)"
        by simp
      from retrieve_decision(1) [OF s this] a have "use_general r1" by auto
      with rep show "\<not> used_documents rep" by simp
    qed
    have three: "\<not> generic \<and> fused \<noteq> [] \<and> found_meta \<noteq> [] \<longrightarrow>
         (\<exists>cb pgs srcs. make_context sv fused found_meta = Inr (cb, pgs, srcs) \<and>
            used_documents rep = (\<not> (signal < LOW_CONFIDENCE_THRESH sv \<or> srcs = [])) \<and>
            (used_documents rep \<longrightarrow> sources rep = srcs))"
    proof
      assume a: "\<not> generic \<and> fused \<noteq> [] \<and> found_meta \<noteq> []"
      with r1 have "retrieve sv st ?q False (trail @ [Call_is_generic_query ?q]) = (Inr r1, t1)"
        by simp
      from retrieve_decision(2) [OF s this] a
      obtain cb pgs srcs where mc: "make_context sv fused found_meta = Inr (cb, pgs, srcs)"
        and r1_eq: "r1 = \<lparr>context_block = cb, pages = pgs, source_meta = srcs,
            combined = found_meta,
            use_general = (signal < LOW_CONFIDENCE_THRESH sv \<or> srcs = [])\<rparr>"
        by auto
      have "used_documents rep = (\<not> (signal < LOW_CONFIDENCE_THRESH sv \<or> srcs = [])) \<and>
            (used_documents rep \<longrightarrow> sources rep = srcs)"
        using rep r1_eq by simp
      with mc show "\<exists>cb pgs srcs. make_context sv fused found_meta = Inr (cb, pgs, srcs) \<and>
            used_documents rep = (\<not> (signal < LOW_CONFIDENCE_THRESH sv \<or> srcs = [])) \<and>
            (used_documents rep \<longrightarrow> sources rep = srcs)"
        by blast
    qed
    have four: "\<not> used_documents rep \<longrightarrow> sources rep = []"
      using rep by simp
    have five: "get_all_collections st = [] \<longrightarrow> \<not> used_documents rep \<and> sources rep = []"
      using retrieve_no_collections [OF _ r1] rep by auto
    from one two three four five show ?thesis by blast
  qed
  from retrieve_generic [of sv st q trail] b c show ?thesis by blast
qed

theorem gate_decision_witness:
  "fst (query demo_services two_storage Map.empty hello_request []) =
     Ok \<lparr>answer = ''Refunds take 14 days.'', sources = [], used_documents = False,
         reply_timestamp = ''2024-01-01T00:00:00''\<rparr> \<and>
   filter is_retrieval (snd (snd (query demo_services two_storage Map.empty hello_request []))) = [] \<and>
   search_all_collections two_storage refund_query 20 5 =
     ([(''b::0'', 9/10), (''a::0'', 3/10)], combined two_retrieved, 9/10) \<and>
   make_context demo_services [(''b::0'', 9/10), (''a::0'', 3/10)] (combined two_retrieved) =
     Inr (context_block two_retrieved, pages two_retrieved, source_meta two_retrieved) \<and>
   fst (query demo_services two_storage Map.empty refund_request []) =
     Ok \<lparr>answer = ''Refunds take 14 days. [*] [*]'', sources = source_meta two_retrieved,
         used_documents = True, reply_timestamp = ''2024-01-01T00:00:00''\<rparr> \<and>
   get_all_collections empty_storage = [] \<and>
   fst (query demo_services empty_storage Map.empty refund_request []) =
     Ok \<lparr>answer = ''Refunds take 14 days.'', sources = [], used_documents = False,
         reply_timestamp = ''2024-01-01T00:00:00''\<rparr>"
proof -
  have q1: "fst (query demo_services two_storage Map.empty hello_request []) =
     Ok \<lparr>answer = ''Refunds take 14 days.'', sources = [], used_documents = False,
         reply_timestamp = ''2024-01-01T00:00:00''\<rparr>"
    by (simp add: demo_hello_query)
  have c1: "is_generic_query demo_services (user_query_of hello_request) = Inr True"
    by (simp add: hello_request_query demo_services_def)
  have s1: "search_all_collections two_storage (user_query_of hello_request)
      (TOPK_DENSE demo_services) (TOPK_FINAL demo_services) =
      ([(''b::0'', 9/10), (''a::0'', 3/10)], combined two_retrieved, 9/10)"
    using two_search_5 [of "user_query_of hello_request"] by (simp add: demo_services_def)
  have t1: "filter is_retrieval (snd (snd (query demo_services two_storage Map.empty hello_request []))) =
      filter is_retrieval []"
    using gate_decision
      [where sv = demo_services and st = two_storage and sessions = Map.empty
        and req = hello_request and trail = "[]" and generic = True
        and rep = "\<lparr>answer = ''Refunds take 14 days.'', sources = [], used_documents = False,
           reply_timestamp = ''2024-01-01T00:00:00''\<rparr>"
        and sessions' = "fst (snd (query demo_services two_storage Map.empty hello_request []))"
        and trail' = "snd (snd (query demo_services two_storage Map.empty hello_request []))"
        and fused = "[(''b::0'', 9/10), (''a::0'', 3/10)]" and found_meta = "combined two_retrieved"
        and signal = "9/10"]
      q1 c1 s1
    by (simp add: prod_eq_iff)
  have s2: "search_all_collections two_storage refund_query 20 5 =
     ([(''b::0'', 9/10), (''a::0'', 3/10)], combined two_retrieved, 9/10)"
    by (rule two_search_5)
  have m2: "make_context demo_services [(''b::0'', 9/10), (''a::0'', 3/10)] (combined two_retrieved) =
     Inr (context_block two_retrieved, pages two_retrieved, source_meta two_retrieved)"
    by (simp add: demo_services_def spec_make_context_def two_retrieved_def)
  have q2: "fst (query demo_services two_storage Map.empty refund_request []) =
     Ok \<lparr>answer = ''Refunds take 14 days. [*] [*]'', sources = source_meta two_retrieved,
         used_documents = True, reply_timestamp = ''2024-01-01T00:00:00''\<rparr>"
    by (simp add: demo_two_query)
  have q3: "fst (query demo_services empty_storage Map.empty refund_request []) =
     Ok \<lparr>answer = ''Refunds take 14 days.'', sources = [], used_documents = False,
         reply_timestamp = ''2024-01-01T00:00:00''\<rparr>"
    by (simp add: demo_empty_query)
  from q1 t1 s2 m2 q2 q3 empty_collections show ?thesis by simp
qed

text \<open>
  One collection whose search returns one chunk, with score 0.9, for which it holds
  no metadata: the aggregator returns one candidate and the signal 0.9, above the
  threshold 0.25, so the gate of the specification says grounded; the mapping is
  empty, and the answer is generic.
\<close>

theorem gate_candidate_count_counterexample:
  "is_generic_query demo_services refund_query = Inr False \<and>
   search_all_collections bare_storage refund_query
     (TOPK_DENSE demo_services) (TOPK_FINAL demo_services) = ([(''m::0'', 9/10)], [], 9/10) \<and>
   ConfidenceGate (LOW_CONFIDENCE_THRESH demo_services) False (9/10)
     (length [(''m::0'', 9/10 :: real)]) = Grounded \<and>
   fst (query demo_services bare_storage Map.empty refund_request []) =
     Ok \<lparr>answer = ''Refunds take 14 days.'', sources = [], used_documents = False,
         reply_timestamp = ''2024-01-01T00:00:00''\<rparr>"
proof -
  have "search_all_collections bare_storage refund_query
     (TOPK_DENSE demo_services) (TOPK_FINAL demo_services) = ([(''m::0'', 9/10)], [], 9/10)"
    using bare_search [of refund_query] by (simp add: demo_services_def)
  moreover have "is_generic_query demo_services refund_query = Inr False"
    by (simp add: demo_services_def refund_query_def)
  moreover have "ConfidenceGate (LOW_CONFIDENCE_THRESH demo_services) False (9/10)
     (length [(''m::0'', 9/10 :: real)]) = Grounded"
    by (simp add: ConfidenceGate_def demo_services_def)
  ultimately show ?thesis by (simp add: demo_bare_query)
qed

subsection \<open>Sessions and rejected requests\<close>

text \<open>
  Claim C9, as the code has it. A request without a session id, or with an empty one,
  and a request whose query text is empty once stripped, are rejected with status 400:
  the sessions are as before and nothing was called, so no session was created and
  neither retrieval nor generation was attempted. For any other request the user
  message is appended to the session of the given id when that id is known, and
  otherwise to a new session stored under a freshly generated id, not under the id the
  request named; no other entry of the sessions changes.
\<close>

theorem session_under_returned_id:
  "(req_session_id req = None \<or> req_session_id req = Some [] \<longrightarrow>
      query sv st sessions req trail = (Error ''session_id required'' 400, sessions, trail)) \<and>
   (req_session_id req = Some i \<and> i \<noteq> [] \<and> user_query_of req = [] \<longrightarrow>
      query sv st sessions req trail = (Error ''query cannot be empty'' 400, sessions, trail)) \<and>
   (req_session_id req = Some i \<and> i \<noteq> [] \<and> user_query_of req \<noteq> [] \<and>
    query sv st sessions req trail = (resp, sessions', trail') \<longrightarrow>
      (\<exists>s'. sessions' (stored_under sv sessions i) = Some s' \<and>
            take (Suc (length (old_messages sessions i))) (messages s') =
              old_messages sessions i @ [user_message sv req]) \<and>
      (\<forall>j. j \<noteq> stored_under sv sessions i \<longrightarrow> sessions' j = sessions j))"
proof -
  have a: "req_session_id req = None \<or> req_session_id req = Some [] \<longrightarrow>
      query sv st sessions req trail = (Error ''session_id required'' 400, sessions, trail)"
    by (simp add: query_rejected)
  have b: "req_session_id req = Some i \<and> i \<noteq> [] \<and> user_query_of req = [] \<longrightarrow>
      query sv st sessions req trail = (Error ''query cannot be empty'' 400, sessions, trail)"
    by (simp add: query_rejected)
  have c: "(\<exists>s'. sessions' (stored_under sv sessions i) = Some s' \<and>
            take (Suc (length (old_messages sessions i))) (messages s') =
              old_messages sessions i @ [user_message sv req]) \<and>
      (\<forall>j. j \<noteq> stored_under sv sessions i \<longrightarrow> sessions' j = sessions j)"
    if h: "req_session_id req = Some i \<and> i \<noteq> [] \<and> user_query_of req \<noteq> [] \<and>
      query sv st sessions req trail = (resp, sessions', trail')"
  proof -
    let ?s = "case sessions i of None \<Rightarrow> new_session sv | Some s \<Rightarrow> s"
    let ?sessions1 = "case sessions i of None \<Rightarrow> sessions(uuid4 sv \<mapsto> new_session sv)
        | Some s \<Rightarrow> sessions"
    let ?sid = "stored_under sv sessions i"
    from h have i: "req_session_id req = Some i" "i \<noteq> []" and nonempty: "user_query_of req \<noteq> []"
      and q: "query sv st sessions req trail = (resp, sessions', trail')" by simp_all
    have gc: "get_or_create_session sv sessions (Some i) = (?sid, ?s, ?sessions1)"
      using i(2) by (rule get_or_create_session_Some)
    have msgs: "messages ?s = old_messages sessions i"
      by (rule session_found_messages)
    have other: "?sessions1 j = sessions j" if "j \<noteq> ?sid" for j
      using that by (simp add: stored_under_def split: option.splits)
    from q query_valid [OF i nonempty gc, of st trail]
    have "sessions' = ?sessions1(?sid \<mapsto> ?s\<lparr>messages := messages ?s @ [user_message sv req]\<rparr>) \<or>
      (\<exists>fa. sessions' = ?sessions1(?sid \<mapsto> ?s\<lparr>messages := messages ?s @ [user_message sv req,
              assistant_message sv fa]\<rparr>))"
      by (auto split: prod.splits sum.splits exn.splits)
    then show ?thesis
    proof
      assume "sessions' = ?sessions1(?sid \<mapsto> ?s\<lparr>messages := messages ?s @ [user_message sv req]\<rparr>)"
      then show ?thesis using msgs other by simp
    next
      assume "\<exists>fa. sessions' = ?sessions1(?sid \<mapsto> ?s\<lparr>messages := messages ?s @ [user_message sv req,
              assistant_message sv fa]\<rparr>)"
      then show ?thesis using msgs other by auto
    qed
  qed
  from a b c show ?thesis by blast
qed

theorem session_under_returned_id_witness:
  "query demo_services two_storage Map.empty (refund_request\<lparr>req_session_id := None\<rparr>) [] =
     (Error ''session_id required'' 400, Map.empty, []) \<and>
   query demo_services two_storage Map.empty (refund_request\<lparr>req_query := Some ''  ''\<rparr>) [] =
     (Error ''query cannot be empty'' 400, Map.empty, []) \<and>
   stored_under demo_services [''abc'' \<mapsto> two_messages] ''abc'' = ''abc'' \<and>
   (\<exists>s'. fst (snd (query demo_services two_storage [''abc'' \<mapsto> two_messages] refund_request []))
            ''abc'' = Some s' \<and>
         take 3 (messages s') = messages two_messages @ [user_message demo_services refund_request])"
proof -
  have a: "query demo_services two_storage Map.empty (refund_request\<lparr>req_session_id := None\<rparr>) [] =
     (Error ''session_id required'' 400, Map.empty, [])"
    using session_under_returned_id
      [where req = "refund_request\<lparr>req_session_id := None\<rparr>" and sv = demo_services
        and st = two_storage and sessions = Map.empty and trail = "[]"]
    by simp
  have "user_query_of (refund_request\<lparr>req_query := Some ''  ''\<rparr>) = []"
    by (simp add: user_query_of_def strip_def isspace_def)
  then have b: "query demo_services two_storage Map.empty (refund_request\<lparr>req_query := Some ''  ''\<rparr>) [] =
     (Error ''query cannot be empty'' 400, Map.empty, [])"
    using session_under_returned_id
      [where req = "refund_request\<lparr>req_query := Some ''  ''\<rparr>" and i = "''abc''"
        and sv = demo_services and st = two_storage and sessions = Map.empty and trail = "[]"]
    by (simp add: refund_request_def)
  have su: "stored_under demo_services [''abc'' \<mapsto> two_messages] ''abc'' = ''abc''"
    by (simp add: stored_under_def)
  have om: "old_messages [''abc'' \<mapsto> two_messages] ''abc'' = messages two_messages"
    by (simp add: old_messages_def)
  have len: "length (messages two_messages) = 2"
    by (simp add: two_messages_def)
  have c: "\<exists>s'. fst (snd (query demo_services two_storage [''abc'' \<mapsto> two_messages] refund_request []))
            ''abc'' = Some s' \<and>
         take 3 (messages s') = messages two_messages @ [user_message demo_services refund_request]"
    using session_under_returned_id
      [where req = refund_request and i = "''abc''" and sv = demo_services and st = two_storage
        and sessions = "[''abc'' \<mapsto> two_messages]" and trail = "[]"
        and resp = "fst (query demo_services two_storage [''abc'' \<mapsto> two_messages] refund_request [])"
        and sessions' = "fst (snd (query demo_services two_storage [''abc'' \<mapsto> two_messages] refund_request []))"
        and trail' = "snd (snd (query demo_services two_storage [''abc'' \<mapsto> two_messages] refund_request []))"]
    by (simp add: refund_request_query refund_query_nonempty su om len eval_nat_numeral)
       (simp add: refund_request_def)
  from a b su c show ?thesis by blast
qed

text \<open>
  A first request that names the unknown id \<open>abc\<close>: afterwards there is still no
  session \<open>abc\<close>, and both messages are in a session under the generated id.
\<close>

theorem session_under_referenced_id_counterexample:
  "fst (snd (query demo_services two_storage Map.empty refund_request [])) ''abc'' = None \<and>
   map_option (\<lambda>s. map content (messages s))
     (fst (snd (query demo_services two_storage Map.empty refund_request [])) ''uuid-1'') =
     Some [''What is the refund policy?'', ''Refunds take 14 days. [*] [*]'']"
  by (simp add: demo_two_query user_message_def new_session_def refund_request_query
      refund_query_def)

subsection \<open>An exception after the user message\<close>

text \<open>
  Claim C10, as the code has it. When a request has passed the two checks and an
  exception is raised inside \<open>try\<close>, the response is the error with status 500 and the
  user message of this request stays in the log after the earlier messages: nothing is
  rolled back. When the exception comes from the body before the answer is final, no
  assistant message follows the user message. When it comes from \<open>jsonify\<close>, which is
  called after the assistant message is appended, the assistant message is in the log
  as well. So after a response 500 the log is the earlier messages and the user
  message, followed by the assistant message or by nothing, and by nothing whenever
  \<open>jsonify\<close> does not raise.
\<close>

theorem user_message_kept_on_exception:
  "(req_session_id req = Some i \<and> i \<noteq> [] \<and> user_query_of req \<noteq> [] \<and>
    get_or_create_session sv sessions (Some i) = (sid, s, created) \<and>
    answer_query sv st (s\<lparr>messages := messages s @ [user_message sv req]\<rparr>)
      (user_query_of req) trail = (Inl (Exception msg), trail') \<longrightarrow>
      query sv st sessions req trail =
        (Error msg 500,
         created(sid \<mapsto> s\<lparr>messages := messages s @ [user_message sv req]\<rparr>), trail')) \<and>
   (req_session_id req = Some i \<and> i \<noteq> [] \<and> user_query_of req \<noteq> [] \<and>
    get_or_create_session sv sessions (Some i) = (sid, s, created) \<and>
    answer_query sv st (s\<lparr>messages := messages s @ [user_message sv req]\<rparr>)
      (user_query_of req) trail = (Inr (fa, r), trail') \<and>
    jsonify sv \<lparr>answer = fa, sources = (if \<not> use_general r then source_meta r else []),
                used_documents = (\<not> use_general r), reply_timestamp = now sv 3\<rparr> =
      Inl (Exception msg) \<longrightarrow>
      query sv st sessions req trail =
        (Error msg 500,
         created(sid \<mapsto> s\<lparr>messages := messages s @
            [user_message sv req, assistant_message sv fa]\<rparr>), trail')) \<and>
   (req_session_id req = Some i \<and> i \<noteq> [] \<and> user_query_of req \<noteq> [] \<and>
    query sv st sessions req trail = (Error msg 500, sessions', trail') \<longrightarrow>
      (\<exists>s'. sessions' (stored_under sv sessions i) = Some s' \<and>
            (messages s' = old_messages sessions i @ [user_message sv req] \<or>
             (\<exists>a. messages s' =
                old_messages sessions i @ [user_message sv req, assistant_message sv a])) \<and>
            ((\<forall>body. jsonify sv body = Inr ()) \<longrightarrow>
               messages s' = old_messages sessions i @ [user_message sv req])))"
proof -
  have a: "query sv st sessions req trail =
        (Error msg 500,
         created(sid \<mapsto> s\<lparr>messages := messages s @ [user_message sv req]\<rparr>), trail')"
    if h: "req_session_id req = Some i \<and> i \<noteq> [] \<and> user_query_of req \<noteq> [] \<and>
      get_or_create_session sv sessions (Some i) = (sid, s, created) \<and>
      answer_query sv st (s\<lparr>messages := messages s @ [user_message sv req]\<rparr>)
        (user_query_of req) trail = (Inl (Exception msg), trail')"
  proof -
    from h have i: "req_session_id req = Some i" "i \<noteq> []" and nonempty: "user_query_of req \<noteq> []"
      and gc: "get_or_create_session sv sessions (Some i) = (sid, s, created)"
      and aq: "answer_query sv st (s\<lparr>messages := messages s @ [user_message sv req]\<rparr>)
        (user_query_of req) trail = (Inl (Exception msg), trail')"
      by (simp_all del: get_or_create_session.simps)
    show ?thesis using query_valid [OF i nonempty gc, of st trail] aq by simp
  qed
  have b: "query sv st sessions req trail =
        (Error msg 500,
         created(sid \<mapsto> s\<lparr>messages := messages s @
            [user_message sv req, assistant_message sv fa]\<rparr>), trail')"
    if h: "req_session_id req = Some i \<and> i \<noteq> [] \<and> user_query_of req \<noteq> [] \<and>
      get_or_create_session sv sessions (Some i) = (sid, s, created) \<and>
      answer_query sv st (s\<lparr>messages := messages s @ [user_message sv req]\<rparr>)
        (user_query_of req) trail = (Inr (fa, r), trail') \<and>
      jsonify sv \<lparr>answer = fa, sources = (if \<not> use_general r then source_meta r else []),
                  used_documents = (\<not> use_general r), reply_timestamp = now sv 3\<rparr> =
        Inl (Exception msg)"
  proof -
    from h have i: "req_session_id req = Some i" "i \<noteq> []" and nonempty: "user_query_of req \<noteq> []"
      and gc: "get_or_create_session sv sessions (Some i) = (sid, s, created)"
      and aq: "answer_query sv st (s\<lparr>messages := messages s @ [user_message sv req]\<rparr>)
        (user_query_of req) trail = (Inr (fa, r), trail')"
      and js: "jsonify sv \<lparr>answer = fa, sources = (if \<not> use_general r then source_meta r else []),
                  used_documents = (\<not> use_general r), reply_timestamp = now sv 3\<rparr> =
        Inl (Exception msg)"
      by (simp_all del: get_or_create_session.simps)
    show ?thesis using query_valid [OF i nonempty gc, of st trail] aq js by simp
  qed
  have c: "\<exists>s'. sessions' (stored_under sv sessions i) = Some s' \<and>
            (messages s' = old_messages sessions i @ [user_message sv req] \<or>
             (\<exists>a. messages s' =
                old_messages sessions i @ [user_message sv req, assistant_message sv a])) \<and>
            ((\<forall>body. jsonify sv body = Inr ()) \<longrightarrow>
               messages s' = old_messages sessions i @ [user_message sv req])"
    if h: "req_session_id req = Some i \<and> i \<noteq> [] \<and> user_query_of req \<noteq> [] \<and>
      query sv st sessions req trail = (Error msg 500, sessions', trail')"
  proof -
    let ?s = "case sessions i of None \<Rightarrow> new_session sv | Some s \<Rightarrow> s"
    let ?known = "case sessions i of None \<Rightarrow> sessions(uuid4 sv \<mapsto> new_session sv)
        | Some s \<Rightarrow> sessions"
    let ?sid = "stored_under sv sessions i"
    from h have i: "req_session_id req = Some i" "i \<noteq> []" and nonempty: "user_query_of req \<noteq> []"
      and q: "query sv st sessions req trail = (Error msg 500, sessions', trail')" by simp_all
    have gc: "get_or_create_session sv sessions (Some i) = (?sid, ?s, ?known)"
      using i(2) by (rule get_or_create_session_Some)
    have msgs: "messages ?s = old_messages sessions i"
      by (rule session_found_messages)
    from q query_valid [OF i nonempty gc, of st trail]
    have cases: "sessions' = ?known(?sid \<mapsto> ?s\<lparr>messages := messages ?s @ [user_message sv req]\<rparr>) \<or>
      (\<exists>a body e. jsonify sv body = Inl e \<and>
         sessions' = ?known(?sid \<mapsto> ?s\<lparr>messages := messages ?s @
           [user_message sv req, assistant_message sv a]\<rparr>))"
      by (auto split: prod.splits sum.splits exn.splits)
    then show ?thesis
    proof
      assume "sessions' = ?known(?sid \<mapsto> ?s\<lparr>messages := messages ?s @ [user_message sv req]\<rparr>)"
      then show ?thesis using msgs by simp
    next
      assume "\<exists>a body e. jsonify sv body = Inl e \<and>
         sessions' = ?known(?sid \<mapsto> ?s\<lparr>messages := messages ?s @
           [user_message sv req, assistant_message sv a]\<rparr>)"
      then obtain a body e where js: "jsonify sv body = Inl e"
        and eq: "sessions' = ?known(?sid \<mapsto> ?s\<lparr>messages := messages ?s @
           [user_message sv req, assistant_message sv a]\<rparr>)"
        by blast
      have "jsonify sv body \<noteq> Inr ()" using js by simp
      then have "\<not> (\<forall>body. jsonify sv body = Inr ())" by blast
      with eq msgs show ?thesis by auto
    qed
  qed
  from a b c show ?thesis by blast
qed

theorem user_message_kept_on_exception_witness:
  "fst (query failing_services two_storage [''abc'' \<mapsto> two_messages] refund_request []) =
     Error ''template missing'' 500 \<and>
   (\<exists>s'. fst (snd (query failing_services two_storage [''abc'' \<mapsto> two_messages] refund_request []))
            ''abc'' = Some s' \<and>
         messages s' = messages two_messages @ [user_message failing_services refund_request]) \<and>
   query unserialisable_services two_storage [''abc'' \<mapsto> two_messages] refund_request [] =
     (Error ''Object is not JSON serializable'' 500,
      [''abc'' \<mapsto> two_messages\<lparr>messages := messages two_messages @
         [user_message unserialisable_services refund_request,
          assistant_message unserialisable_services ''Refunds take 14 days. [*] [*]'']\<rparr>],
      [Call_is_generic_query refund_query, Call_search_all_collections refund_query,
       Call_make_context, Call_build_prompt False,
       Call_llm_generate ''grounded: What is the refund policy?'',
       Call_add_inline_citations ''Refunds take 14 days.'' [2, 7]])"
proof -
  have i: "req_session_id refund_request = Some ''abc''" "''abc'' \<noteq> []"
    by (simp_all add: refund_request_def)
  have q: "query failing_services two_storage [''abc'' \<mapsto> two_messages] refund_request [] =
      (Error ''template missing'' 500,
       [''abc'' \<mapsto> two_messages\<lparr>messages := messages two_messages @
          [user_message failing_services refund_request]\<rparr>],
       [Call_is_generic_query refund_query, Call_search_all_collections refund_query,
        Call_make_context, Call_build_prompt False])"
    using user_message_kept_on_exception
      [where req = refund_request and i = "''abc''" and sv = failing_services
        and st = two_storage and sessions = "[''abc'' \<mapsto> two_messages]" and trail = "[]"
        and sid = "''abc''" and s = two_messages and created = "[''abc'' \<mapsto> two_messages]"
        and msg = "''template missing''"
        and trail' = "[Call_is_generic_query refund_query, Call_search_all_collections refund_query,
          Call_make_context, Call_build_prompt False]"]
      i abc_known(1) [of failing_services]
    by (simp add: refund_request_query refund_query_nonempty failing_two_answer
        del: get_or_create_session.simps)
  have jf: "jsonify failing_services body = Inr ()" for body
    by (simp add: failing_services_def demo_services_def)
  have "\<exists>s'. fst (snd (query failing_services two_storage [''abc'' \<mapsto> two_messages] refund_request []))
            ''abc'' = Some s' \<and>
         messages s' = messages two_messages @ [user_message failing_services refund_request]"
    using user_message_kept_on_exception
      [where req = refund_request and i = "''abc''" and sv = failing_services
        and st = two_storage and sessions = "[''abc'' \<mapsto> two_messages]" and trail = "[]"
        and msg = "''template missing''"
        and sessions' = "fst (snd (query failing_services two_storage [''abc'' \<mapsto> two_messages] refund_request []))"
        and trail' = "snd (snd (query failing_services two_storage [''abc'' \<mapsto> two_messages] refund_request []))"]
      i q jf
    by (simp add: refund_request_query refund_query_nonempty abc_known)
  moreover have "query unserialisable_services two_storage [''abc'' \<mapsto> two_messages] refund_request [] =
     (Error ''Object is not JSON serializable'' 500,
      [''abc'' \<mapsto> two_messages\<lparr>messages := messages two_messages @
         [user_message unserialisable_services refund_request,
          assistant_message unserialisable_services ''Refunds take 14 days. [*] [*]'']\<rparr>],
      [Call_is_generic_query refund_query, Call_search_all_collections refund_query,
       Call_make_context, Call_build_prompt False,
       Call_llm_generate ''grounded: What is the refund policy?'',
       Call_add_inline_citations ''Refunds take 14 days.'' [2, 7]])"
    using user_message_kept_on_exception
      [where req = refund_request and i = "''abc''" and sv = unserialisable_services
        and st = two_storage and sessions = "[''abc'' \<mapsto> two_messages]" and trail = "[]"
        and sid = "''abc''" and s = two_messages and created = "[''abc'' \<mapsto> two_messages]"
        and msg = "''Object is not JSON serializable''"
        and fa = "''Refunds take 14 days. [*] [*]''" and r = two_retrieved
        and trail' = "[Call_is_generic_query refund_query, Call_search_all_collections refund_query,
          Call_make_context, Call_build_prompt False,
          Call_llm_generate ''grounded: What is the refund policy?'',
          Call_add_inline_citations ''Refunds take 14 days.'' [2, 7]]"]
      i abc_known(1) [of unserialisable_services]
    by (simp add: refund_request_query refund_query_nonempty unserialisable_two_answer
        unserialisable_jsonify del: get_or_create_session.simps)
  ultimately show ?thesis using q by simp
qed

text \<open>
  The answer is generated and the assistant message appended; then \<open>jsonify\<close> raises on
  the object of the answer. The response is the error 500, and the log of the session
  ends with the user message and the assistant message.
\<close>

theorem assistant_message_on_exception_counterexample:
  "fst (query unserialisable_services two_storage [''abc'' \<mapsto> two_messages] refund_request []) =
     Error ''Object is not JSON serializable'' 500 \<and>
   map_option (\<lambda>s. map (\<lambda>m. (role m, content m)) (messages s))
     (fst (snd (query unserialisable_services two_storage [''abc'' \<mapsto> two_messages]
        refund_request [])) ''abc'') =
     Some [(''user'', ''hi''), (''assistant'', ''hello''),
           (''user'', ''What is the refund policy?''),
           (''assistant'', ''Refunds take 14 days. [*] [*]'')]"
proof -
  have i: "req_session_id refund_request = Some ''abc''" "''abc'' \<noteq> []"
    by (simp_all add: refund_request_def)
  have "query unserialisable_services two_storage [''abc'' \<mapsto> two_messages] refund_request [] =
     (Error ''Object is not JSON serializable'' 500,
      [''abc'' \<mapsto> two_messages\<lparr>messages := messages two_messages @
         [user_message unserialisable_services refund_request,
          assistant_message unserialisable_services ''Refunds take 14 days. [*] [*]'']\<rparr>],
      [Call_is_generic_query refund_query, Call_search_all_collections refund_query,
       Call_make_context, Call_build_prompt False,
       Call_llm_generate ''grounded: What is the refund policy?'',
       Call_add_inline_citations ''Refunds take 14 days.'' [2, 7]])"
    using query_valid [OF i refund_query_nonempty [folded refund_request_query]
        abc_known(1) [of unserialisable_services], of two_storage "[]"]
    by (simp add: refund_request_query unserialisable_two_answer unserialisable_jsonify)
  then show ?thesis
    by (simp add: user_message_def assistant_message_def two_messages_def
        refund_request_query refund_query_def)
qed


end
